theory Spec2Isabelle
  imports Main "HOL-Library.Sublist" "HOL-Library.AList"
begin

section \<open>Python values used by mlol\_client.py\<close>

text \<open>
  A Python \<open>str\<close> is modelled as a \<open>string\<close> whose characters are the code points
  below 256 (Latin-1). The string methods the client calls are written out below for
  that range: \<open>str.isspace\<close>, \<open>str.lower\<close>, \<open>str.strip\<close>, \<open>str.split\<close> with and
  without a separator, \<open>str.lstrip\<close> with a character set, \<open>str.replace\<close>,
  \<open>str.startswith\<close> (\<open>prefix\<close>) and the operator \<open>in\<close>.
\<close>

definition is_space :: "char \<Rightarrow> bool" where
  "is_space c = (let n = (of_char c :: nat) in
     (9 \<le> n \<and> n \<le> 13) \<or> (28 \<le> n \<and> n \<le> 32) \<or> n = 133 \<or> n = 160)"

definition is_digit :: "char \<Rightarrow> bool" where
  "is_digit c = (let n = (of_char c :: nat) in 48 \<le> n \<and> n \<le> 57)"

definition lower_char :: "char \<Rightarrow> char" where
  "lower_char c = (let n = (of_char c :: nat) in
     if (65 \<le> n \<and> n \<le> 90) \<or> (192 \<le> n \<and> n \<le> 222 \<and> n \<noteq> 215)
     then char_of (n + 32) else c)"

definition py_lower :: "string \<Rightarrow> string" where
  "py_lower s = map lower_char s"

definition py_strip :: "string \<Rightarrow> string" where
  "py_strip s = rev (dropWhile is_space (rev (dropWhile is_space s)))"

text \<open>\<open>sub in s\<close>: \<open>sub\<close> occurs in \<open>s\<close> as a contiguous run.\<close>

fun py_in :: "string \<Rightarrow> string \<Rightarrow> bool" where
  "py_in sub [] = (sub = [])"
| "py_in sub (c # cs) = (prefix sub (c # cs) \<or> py_in sub cs)"

text \<open>\<open>s.split()\<close>: the maximal runs of non-whitespace characters, in order.\<close>

fun py_split_acc :: "string \<Rightarrow> string \<Rightarrow> string list" where
  "py_split_acc cur [] = (if cur = [] then [] else [cur])"
| "py_split_acc cur (c # cs) =
     (if is_space c
      then (if cur = [] then py_split_acc [] cs else cur # py_split_acc [] cs)
      else py_split_acc (cur @ [c]) cs)"

definition py_split :: "string \<Rightarrow> string list" where
  "py_split s = py_split_acc [] s"

text \<open>\<open>s.split(sep)\<close> for a one-character separator: never the empty list.\<close>

fun py_split_on :: "char \<Rightarrow> string \<Rightarrow> string list" where
  "py_split_on sep [] = [[]]"
| "py_split_on sep (c # cs) =
     (if c = sep then [] # py_split_on sep cs
      else (case py_split_on sep cs of
              [] \<Rightarrow> [[c]]
            | t # ts \<Rightarrow> (c # t) # ts))"

text \<open>
  \<open>s.replace(old, new)\<close> for a non-empty \<open>old\<close>: every occurrence, left to right,
  without overlap. \<open>k\<close> counts the characters of a replaced occurrence still to skip.
\<close>

fun py_replace_skip :: "nat \<Rightarrow> string \<Rightarrow> string \<Rightarrow> string \<Rightarrow> string" where
  "py_replace_skip k old new [] = []"
| "py_replace_skip k old new (c # cs) =
     (if 0 < k then py_replace_skip (k - 1) old new cs
      else if prefix old (c # cs) then new @ py_replace_skip (length old - 1) old new cs
      else c # py_replace_skip 0 old new cs)"

definition py_replace :: "string \<Rightarrow> string \<Rightarrow> string \<Rightarrow> string" where
  "py_replace old new s = py_replace_skip 0 old new s"

text \<open>\<open>s.lstrip("..")\<close>: the leading dots are dropped.\<close>

definition lstrip_dots :: "string \<Rightarrow> string" where
  "lstrip_dots s = dropWhile (\<lambda>c. c = CHR ''.'') s"

text \<open>\<open>str(x)\<close> of an optional string, as an f-string prints it.\<close>

definition str_opt :: "string option \<Rightarrow> string" where
  "str_opt v = (case v of None \<Rightarrow> ''None'' | Some s \<Rightarrow> s)"

text \<open>
  Exceptions are identified by the name of their class. Messages are logged with a
  level, as \<open>logging.debug\<close>, \<open>info\<close>, \<open>warning\<close> and \<open>error\<close> do.
\<close>

datatype exn = Exn string

datatype level = DEBUG | INFO | WARNING | ERROR

type_synonym log_entry = "level \<times> string"

section \<open>The status vocabulary: \_parse\_book\_status\<close>

definition parse_book_status :: "string \<Rightarrow> string option" where
  "parse_book_status status0 =
     (let status = py_lower (py_strip status0) in
      if py_in ''scarica'' status then Some ''available''
      else if py_in ''ripeti'' status then Some ''owned''
      else if py_in ''prenotato'' status then Some ''reserved''
      else if py_in ''occupato'' status then Some ''taken''
      else if py_in ''non disponibile'' status then Some ''unavailable''
      else None)"

text \<open>
  \<open>int(s)\<close> on a string: surrounding whitespace is ignored, then an optional sign
  and decimal digits, single underscores allowed between digits; anything else raises
  \<open>ValueError\<close>. So does a number of more than 4300 digits, the default limit of
  CPython on the conversion of a string to an integer.
\<close>

fun valid_digits :: "string \<Rightarrow> bool" where
  "valid_digits [] = False"
| "valid_digits [c] = is_digit c"
| "valid_digits (c # d # r) =
     (is_digit c \<and> (if d = CHR ''_'' then valid_digits r else valid_digits (d # r)))"

definition digits_value :: "string \<Rightarrow> int" where
  "digits_value ds = foldl (\<lambda>a c. 10 * a + (int (of_char c) - 48)) 0 (filter is_digit ds)"

definition py_int :: "string \<Rightarrow> exn + int" where
  "py_int s =
     (let t = py_strip s;
          neg = (t \<noteq> [] \<and> hd t = CHR ''-'');
          body = (if t \<noteq> [] \<and> (hd t = CHR ''-'' \<or> hd t = CHR ''+'') then tl t else t)
      in if valid_digits body \<and> int (length (filter is_digit body)) \<le> 4300
         then Inr (if neg then - digits_value body else digits_value body)
         else Inl (Exn ''ValueError''))"

text \<open>\<open>str(n)\<close> of a non-negative integer.\<close>

fun str_nat :: "nat \<Rightarrow> string" where
  "str_nat n =
     (if n < 10 then [char_of (48 + n)]
      else str_nat (n div 10) @ [char_of (48 + n mod 10)])"

text \<open>
  \<open>re.search(r"(?<=KEY)\d+$", url)\<close>, as the client uses it with the keys \<open>id=\<close> and
  \<open>idp=\<close>: the run of digits at the end of \<open>url\<close> (\<open>$\<close> also matches before one
  final newline), when it is not empty and \<open>KEY\<close> stands right before it. \<open>None\<close> is
  the failed search.
\<close>

definition re_search_suffix :: "string \<Rightarrow> string \<Rightarrow> string option" where
  "re_search_suffix key url =
     (let u = (if url \<noteq> [] \<and> last url = CHR 0x0A then butlast url else url);
          ds = rev (takeWhile is_digit (rev u));
          pre = take (length u - length ds) u
      in if ds \<noteq> [] \<and> suffix key pre then Some ds else None)"

section \<open>The pages, as the parsers query them\<close>

text \<open>
  BeautifulSoup is outside the repository. A parsed page is modelled by the results of
  the queries the client makes on it: \<open>None\<close> is the query that found nothing, and an
  element carries what the client reads from a \<open>Tag\<close> (\<open>.attrs\<close>, \<open>.string\<close>,
  \<open>.text\<close>). A \<open>Tag\<close> is always truthy; a result list is truthy when not empty.
\<close>

record element =
  attrs :: "string \<rightharpoonup> string"
  el_string :: "string option"
  el_text :: string

text \<open>
  A child of the description block, as \<open>filter(lambda x: hasattr(x, "text"), ...)\<close>
  and the following \<open>if\<close> see it.
\<close>

record child =
  has_text :: bool
  child_truthy :: bool
  child_text :: string

record book_page =
  book_title_el :: "element option"
  authors_title_el :: "element option"
  publisher_el :: "element option"
  isbn_els :: "element list"
  panel_mlol_el :: "element option"
  description_div :: "child list option"
  language_el :: "element option"
  year_el :: "element option"
  formato_span :: "element option"

text \<open>
  \<open>formato_span\<close> is the result of
  \<open>page.find("b", text=re.compile("FORMATO")).parent.parent.find("span")\<close>;
  \<open>None\<close> when any step of the chain is \<open>None\<close>, which raises \<open>AttributeError\<close> at
  the next step.
\<close>

record result_item =
  find_h4 :: "element option"
  find_a :: "element option"
  select_authorref :: "element list"

record search_page =
  result_items :: "result_item list"
  find_p :: "element option"

section \<open>MLOLBook\<close>

record MLOLBook =
  book_id :: string
  title :: string
  authors :: "string list option"
  status :: "string option"
  publisher :: "string option"
  ISBNs :: "string list option"
  language :: "string option"
  description :: "string option"
  year :: "int option"
  formats :: "string list option"
  drm :: "bool option"

section \<open>The detail parser: \_parse\_book\_page\<close>

text \<open>
  \<open>book_data\<close> is a \<open>defaultdict(lambda: None)\<close>; its only reader,
  \<open>get_book_by_id\<close>, reads every key through \<open>book_data[key]\<close>, where a missing key
  and a key bound to \<open>None\<close> both give \<open>None\<close>. The record holds what such a read
  returns.
\<close>

record book_data =
  bd_title :: "string option"
  bd_authors :: "string list option"
  bd_publisher :: "string option"
  bd_ISBNs :: "string list option"
  bd_status :: "string option"
  bd_description :: "string option"
  bd_language :: "string option"
  bd_year :: "int option"
  bd_formats :: "string list option"
  bd_drm :: "bool option"

definition empty_book_data :: book_data where
  "empty_book_data =
     \<lparr>bd_title = None, bd_authors = None, bd_publisher = None, bd_ISBNs = None,
      bd_status = None, bd_description = None, bd_language = None, bd_year = None,
      bd_formats = None, bd_drm = None\<rparr>"

text \<open>
  \<open>next(filter(lambda x: hasattr(x, "text"), page.find("div", ...)))\<close>: \<open>filter\<close> over
  \<open>None\<close> raises \<open>TypeError\<close>, \<open>next\<close> of an exhausted iterator raises
  \<open>StopIteration\<close>. Neither is caught.
\<close>

definition next_text_child :: "child list option \<Rightarrow> exn + child" where
  "next_text_child d =
     (case d of
        None \<Rightarrow> Inl (Exn ''TypeError'')
      | Some cs \<Rightarrow>
          (case filter has_text cs of
             [] \<Rightarrow> Inl (Exn ''StopIteration'')
           | x # _ \<Rightarrow> Inr x))"

text \<open>The \<open>try\<close> block on the combined format/DRM string, with its bare \<open>except\<close>.\<close>

definition formats_warning :: "book_data \<Rightarrow> log_entry" where
  "formats_warning bd = (WARNING, ''Failed to parse formats for book '' @ str_opt (bd_title bd))"

definition parse_formats :: "book_page \<Rightarrow> book_data \<Rightarrow> book_data \<times> log_entry list" where
  "parse_formats page bd =
     (case formato_span page of
        None \<Rightarrow> (bd, [formats_warning bd])
      | Some sp \<Rightarrow>
          (let formats_str = py_strip (el_text sp);
               bd1 = bd\<lparr>bd_drm := Some (py_in ''drm'' (py_lower formats_str))\<rparr>
           in case py_split formats_str of
                [] \<Rightarrow> (bd1, [formats_warning bd1])
              | tok # _ \<Rightarrow>
                  (bd1\<lparr>bd_formats :=
                         Some (map (\<lambda>f. py_lower (py_strip f)) (py_split_on CHR ''/'' tok))\<rparr>,
                   [])))"

definition split_authors :: "string \<Rightarrow> string list" where
  "split_authors s = map py_strip (py_split_on CHR '';'' s)"

definition parse_book_page :: "book_page \<Rightarrow> (exn + book_data) \<times> log_entry list" where
  "parse_book_page page =
     (let bd = empty_book_data;
          bd = (case book_title_el page of
                  Some t \<Rightarrow> bd\<lparr>bd_title := Some (py_strip (el_text t))\<rparr>
                | None \<Rightarrow> bd);
          bd = (case authors_title_el page of
                  Some a \<Rightarrow> bd\<lparr>bd_authors := Some (split_authors (py_strip (el_text a)))\<rparr>
                | None \<Rightarrow> bd);
          bd = (case publisher_el page of
                  Some p \<Rightarrow> bd\<lparr>bd_publisher := Some (py_strip (el_text p))\<rparr>
                | None \<Rightarrow> bd);
          bd = (if isbn_els page \<noteq> []
                then bd\<lparr>bd_ISBNs := Some (map (\<lambda>i. py_strip (el_text i)) (isbn_els page))\<rparr>
                else bd);
          bd = (case panel_mlol_el page of
                  Some e \<Rightarrow> bd\<lparr>bd_status := parse_book_status (py_strip (el_text e))\<rparr>
                | None \<Rightarrow> bd)
      in case next_text_child (description_div page) of
           Inl e \<Rightarrow> (Inl e, [])
         | Inr d \<Rightarrow>
             (let bd = (if child_truthy d
                        then bd\<lparr>bd_description := Some (py_strip (child_text d))\<rparr>
                        else bd);
                  bd = (case language_el page of
                          Some l \<Rightarrow> bd\<lparr>bd_language := Some (py_strip (el_text l))\<rparr>
                        | None \<Rightarrow> bd)
              in case (case year_el page of
                         None \<Rightarrow> Inr bd
                       | Some y \<Rightarrow>
                           (case py_int (py_strip (el_text y)) of
                              Inl e \<Rightarrow> Inl e
                            | Inr n \<Rightarrow> Inr (bd\<lparr>bd_year := Some n\<rparr>))) of
                   Inl e \<Rightarrow> (Inl e, [])
                 | Inr bd \<Rightarrow>
                     (case parse_formats page bd of (bd', lg) \<Rightarrow> (Inr bd', lg))))"

section \<open>The listing parser: \_parse\_search\_page\<close>

text \<open>
  The first \<open>try\<close> block: title, link and ID of one result item. \<open>None\<close> is any
  exception, which the bare \<open>except\<close> turns into a logged skip.
\<close>

definition extract_id_title :: "result_item \<Rightarrow> (string \<times> string) option" where
  "extract_id_title book =
     (case find_h4 book of
        None \<Rightarrow> None
      | Some h4 \<Rightarrow>
          (case attrs h4 ''title'' of
             None \<Rightarrow> None
           | Some t \<Rightarrow>
               (case find_a book of
                  None \<Rightarrow> None
                | Some a \<Rightarrow>
                    (case attrs a ''href'' of
                       None \<Rightarrow> None
                     | Some url \<Rightarrow>
                         (case re_search_suffix ''id='' url of
                            None \<Rightarrow> None
                          | Some i \<Rightarrow> Some (i, t))))))"

text \<open>
  The local variable \<open>authors\<close> lives across the iterations of the loop: it is unbound
  until the first assignment, and an iteration that assigns nothing leaves it as it was.
\<close>

datatype 'a local_var = Unbound | Bound 'a

text \<open>
  The second \<open>try\<close> block. Every exception (\<open>.string\<close> is \<open>None\<close>, no \<open>p\<close> in the
  page, no \<open>itemprop\<close> attribute) sets \<open>authors = None\<close>; a first \<open>p\<close> of the page
  whose \<open>itemprop\<close> is not \<open>author\<close> raises nothing and assigns nothing.
\<close>

definition extract_authors ::
  "search_page \<Rightarrow> result_item \<Rightarrow> string option local_var \<Rightarrow> string option local_var" where
  "extract_authors page book authors_var =
     (case select_authorref book of
        a # _ \<Rightarrow>
          (case el_string a of
             None \<Rightarrow> Bound None
           | Some s \<Rightarrow> Bound (Some (py_strip s)))
      | [] \<Rightarrow>
          (case find_p page of
             None \<Rightarrow> Bound None
           | Some p \<Rightarrow>
               (case attrs p ''itemprop'' of
                  None \<Rightarrow> Bound None
                | Some v \<Rightarrow>
                    if v = ''author''
                    then (case el_string p of
                            None \<Rightarrow> Bound None
                          | Some s \<Rightarrow> Bound (Some (py_strip s)))
                    else authors_var)))"

definition listing_book :: "string \<Rightarrow> string \<Rightarrow> string option \<Rightarrow> MLOLBook" where
  "listing_book i t a =
     \<lparr>book_id = i, title = t,
      authors = (case a of
                   None \<Rightarrow> None
                 | Some s \<Rightarrow> if s = [] then None else Some (split_authors s)),
      status = None, publisher = None, ISBNs = None, language = None,
      description = None, year = None, formats = None, drm = None\<rparr>"

definition skip_message :: "nat \<Rightarrow> log_entry" where
  "skip_message i = (ERROR, ''Could not parse ID or title. Skipping book #'' @ str_nat (i + 1) @ ''...'')"

text \<open>
  The loop over \<open>enumerate(page.select(".result-item"))\<close>, from index \<open>i\<close> on. Reading
  the unbound \<open>authors\<close> raises \<open>UnboundLocalError\<close> outside both \<open>try\<close> blocks, which
  ends the call; the log keeps what was logged before.
\<close>

fun parse_search_items ::
  "search_page \<Rightarrow> nat \<Rightarrow> string option local_var \<Rightarrow> result_item list \<Rightarrow>
     (exn + MLOLBook list) \<times> log_entry list" where
  "parse_search_items page i authors_var [] = (Inr [], [])"
| "parse_search_items page i authors_var (book # rest) =
     (case extract_id_title book of
        None \<Rightarrow>
          (case parse_search_items page (i + 1) authors_var rest of
             (r, lg) \<Rightarrow> (r, skip_message i # lg))
      | Some (bid, t) \<Rightarrow>
          (case extract_authors page book authors_var of
             Unbound \<Rightarrow> (Inl (Exn ''UnboundLocalError''), [])
           | Bound a \<Rightarrow>
               (case parse_search_items page (i + 1) (Bound a) rest of
                  (Inl e, lg) \<Rightarrow> (Inl e, lg)
                | (Inr bs, lg) \<Rightarrow> (Inr (listing_book bid t a # bs), lg))))"

definition parse_search_page :: "search_page \<Rightarrow> (exn + MLOLBook list) \<times> log_entry list" where
  "parse_search_page page = parse_search_items page 0 Unbound (result_items page)"

section \<open>The session, the transport and the log\<close>

text \<open>
  The HTTP session, BeautifulSoup and RoboBrowser are outside the repository; they are
  parameters of the model. A request made through \<open>session.request\<close> is answered by
  \<open>http\<close>, which may depend on the requests made before and answers with a response
  or with the exception the transport raises (the \<open>raise_for_status\<close> hook included).
  \<open>BeautifulSoup\<close> gives, for a response text, the results of the queries the client
  makes on the parsed page.
\<close>

definition ENDPOINTS :: "string \<Rightarrow> string" where
  "ENDPOINTS k =
     (if k = ''search'' then ''/media/ricerca.aspx''
      else if k = ''login'' then ''/user/logform.aspx''
      else if k = ''resources'' then ''/user/risorse.aspx''
      else if k = ''get_book'' then ''/media/scheda.aspx''
      else if k = ''redownload'' then ''/help/dlrepeat.aspx''
      else if k = ''download'' then ''/media/downloadebadok.aspx''
      else if k = ''pre_reserve'' then ''/media/prenota.aspx''
      else if k = ''reserve'' then ''/media/prenota2.aspx''
      else [])"

record request =
  http_method :: string
  url :: string
  params :: "(string \<times> string) list"
  headers :: "string \<rightharpoonup> string"
  allow_redirects :: bool

record response =
  status_code :: int
  resp_url :: string
  resp_text :: string
  resp_content :: string
  resp_headers :: "string \<rightharpoonup> string"

record session =
  base_url :: string
  session_headers :: "string \<rightharpoonup> string"
  cookies :: "string \<rightharpoonup> string"

text \<open>
  \<open>loan_links book_id\<close> is the result of
  \<open>soup.find("a", attrs={"href": re.compile(f"({book_id})")}).parent.parent
  .select(".download_button.bottom-buffer-10 > a")\<close>; \<open>None\<close> when \<open>find\<close> or a
  \<open>parent\<close> is \<open>None\<close>, which raises \<open>AttributeError\<close> at the next step.
  \<open>lblInfo\<close> is \<open>soup.select_one("#lblInfo")\<close>.
\<close>

record soup =
  search_view :: search_page
  book_view :: book_page
  loan_links :: "string \<Rightarrow> element list option"
  lblInfo :: "element option"

record form =
  form_fields :: "string \<rightharpoonup> string"

record env =
  http :: "request list \<Rightarrow> request \<Rightarrow> exn + response"
  BeautifulSoup :: "string \<Rightarrow> soup"
  browser_open :: "string \<Rightarrow> exn + form list"
  browser_submit :: "form \<Rightarrow> exn + (string \<rightharpoonup> string)"
  started_ahead :: "request list \<Rightarrow> nat"

text \<open>
  \<open>started_ahead\<close> belongs to the thread pool of a deep search: when the call whose
  result is being collected has failed, it tells how many of the calls submitted after
  it the workers had already started (a matter of scheduling, so it is left to the
  world; it may depend on the requests made so far).
\<close>

text \<open>What a call leaves behind: the requests made and the messages logged, in order.\<close>

record state =
  trace :: "request list"
  logged :: "log_entry list"

definition logging :: "level \<Rightarrow> string \<Rightarrow> state \<Rightarrow> state" where
  "logging lvl msg st = st\<lparr>logged := logged st @ [(lvl, msg)]\<rparr>"

definition session_request :: "env \<Rightarrow> request \<Rightarrow> state \<Rightarrow> (exn + response) \<times> state" where
  "session_request e req st = (http e (trace st) req, st\<lparr>trace := trace st @ [req]\<rparr>)"

section \<open>Authentication: \_get\_auth\_cookies\<close>

text \<open>
  \<open>[f for f in browser.get_forms() if "lusername" in f.fields][0]\<close>: the first form
  with a field named \<open>lusername\<close>; indexing the empty list raises \<open>IndexError\<close>.
  Assigning a field the form does not have raises \<open>BadRequestKeyError\<close>, the
  subclass of \<open>KeyError\<close> that the form's field dictionary raises for a missing key.
\<close>

definition get_auth_cookies ::
  "env \<Rightarrow> session \<Rightarrow> string \<Rightarrow> string \<Rightarrow> exn + (string \<rightharpoonup> string)" where
  "get_auth_cookies e sess username password =
     (case browser_open e (base_url sess @ ENDPOINTS ''login'') of
        Inl x \<Rightarrow> Inl x
      | Inr forms \<Rightarrow>
          (case filter (\<lambda>f. form_fields f ''lusername'' \<noteq> None) forms of
             [] \<Rightarrow> Inl (Exn ''IndexError'')
           | f # _ \<Rightarrow>
               (let f1 = f\<lparr>form_fields := (form_fields f)(''lusername'' \<mapsto> username)\<rparr> in
                case form_fields f1 ''lpassword'' of
                  None \<Rightarrow> Inl (Exn ''BadRequestKeyError'')
                | Some _ \<Rightarrow>
                    browser_submit e (f1\<lparr>form_fields := (form_fields f1)(''lpassword'' \<mapsto> password)\<rparr>))))"

section \<open>get\_book\_by\_id\<close>

definition get_book_request :: "string \<Rightarrow> request" where
  "get_book_request bid =
     \<lparr>http_method = ''GET'', url = ENDPOINTS ''get_book'', params = [(''id'', bid)],
      headers = Map.empty, allow_redirects = True\<rparr>"

definition book_of_data :: "string \<Rightarrow> string \<Rightarrow> book_data \<Rightarrow> MLOLBook" where
  "book_of_data bid t bd =
     \<lparr>book_id = bid, title = t, authors = bd_authors bd, status = bd_status bd,
      publisher = bd_publisher bd, ISBNs = bd_ISBNs bd, language = bd_language bd,
      description = bd_description bd, year = bd_year bd, formats = bd_formats bd,
      drm = bd_drm bd\<rparr>"

definition get_book_by_id ::
  "env \<Rightarrow> session \<Rightarrow> string \<Rightarrow> state \<Rightarrow> (exn + MLOLBook option) \<times> state" where
  "get_book_by_id e sess bid st0 =
     (let st = logging DEBUG (''Fetching book '' @ bid) st0 in
      case session_request e (get_book_request bid) st of
        (Inl x, st) \<Rightarrow> (Inl x, st)
      | (Inr response, st) \<Rightarrow>
          if py_in ''alert.aspx'' (resp_url response)
          then (Inr None,
                logging WARNING
                  (''Failed to fetch book '' @ bid @ ''. Might not be available to your library.'') st)
          else (case parse_book_page (book_view (BeautifulSoup e (resp_text response))) of
                  (Inl x, lg) \<Rightarrow> (Inl x, st\<lparr>logged := logged st @ lg\<rparr>)
                | (Inr bd, lg) \<Rightarrow>
                    (let st = st\<lparr>logged := logged st @ lg\<rparr> in
                     case bd_title bd of
                       None \<Rightarrow>
                         (Inr None,
                          logging WARNING
                            (''Failed to get book title for id '' @ bid @ '', skipping...'') st)
                     | Some t \<Rightarrow> (Inr (Some (book_of_data bid t bd)), st))))"

section \<open>download\_book\_by\_id\<close>

text \<open>\<open>not self.session.cookies.get(".ASPXAUTH")\<close>: no cookie, or an empty one.\<close>

definition authenticated :: "session \<Rightarrow> bool" where
  "authenticated sess =
     (case cookies sess ''.ASPXAUTH'' of None \<Rightarrow> False | Some v \<Rightarrow> v \<noteq> [])"

definition auth_message :: string where
  "auth_message = ''You need to be authenticated to MLOL in order to download books.''"

definition host_of :: "session \<Rightarrow> string" where
  "host_of sess = py_replace ''https://'' [] (base_url sess)"

definition resources_request :: request where
  "resources_request =
     \<lparr>http_method = ''GET'', url = ENDPOINTS ''resources'', params = [],
      headers = Map.empty, allow_redirects = True\<rparr>"

definition redownload_request :: "session \<Rightarrow> string \<Rightarrow> request" where
  "redownload_request sess loan_id =
     \<lparr>http_method = ''GET'', url = ENDPOINTS ''redownload'',
      params = [(''idp'', loan_id)],
      headers = session_headers sess ++
        [''Host'' \<mapsto> host_of sess,
         ''Referer'' \<mapsto> base_url sess @ ''/help/helpdeskdl.aspx?idp='' @ loan_id],
      allow_redirects = False\<rparr>"

definition download_request :: "session \<Rightarrow> string \<Rightarrow> request" where
  "download_request sess bid =
     \<lparr>http_method = ''GET'', url = ENDPOINTS ''download'',
      params = [(''unid'', bid), (''form'', ''epub'')],
      headers = session_headers sess ++
        [''Host'' \<mapsto> host_of sess,
         ''Referer'' \<mapsto> base_url sess @ ''/media/downloadebad2.aspx?unid='' @ bid @ ''&form=epub''],
      allow_redirects = False\<rparr>"

definition follow_request :: "session \<Rightarrow> string \<Rightarrow> request" where
  "follow_request sess loc =
     \<lparr>http_method = ''GET'', url = loc, params = [],
      headers = session_headers sess ++ [''Sec-Fetch-Site'' \<mapsto> ''cross-site''],
      allow_redirects = True\<rparr>"

text \<open>
  The \<open>try\<close> block of \<open>_redownload_owned_book\<close>: the loan ID, or the exception that
  the \<open>except\<close> clause logs and raises again.
\<close>

definition find_loan_id :: "soup \<Rightarrow> string \<Rightarrow> exn + string" where
  "find_loan_id sp bid =
     (case loan_links sp bid of
        None \<Rightarrow> Inl (Exn ''AttributeError'')
      | Some [] \<Rightarrow> Inl (Exn ''IndexError'')
      | Some (a # _) \<Rightarrow>
          (case attrs a ''href'' of
             None \<Rightarrow> Inl (Exn ''KeyError'')
           | Some h \<Rightarrow>
               (case re_search_suffix ''idp='' (lstrip_dots h) of
                  None \<Rightarrow> Inl (Exn ''AttributeError'')
                | Some i \<Rightarrow> Inr i)))"

definition redownload_owned_book ::
  "env \<Rightarrow> session \<Rightarrow> string \<Rightarrow> state \<Rightarrow> (exn + response) \<times> state" where
  "redownload_owned_book e sess bid st0 =
     (case session_request e resources_request st0 of
        (Inl x, st) \<Rightarrow> (Inl x, st)
      | (Inr response, st) \<Rightarrow>
          (case find_loan_id (BeautifulSoup e (resp_text response)) bid of
             Inl x \<Rightarrow>
               (Inl x,
                logging ERROR (''Failed to find owned book '' @ bid @ '' in your profile'') st)
           | Inr loan_id \<Rightarrow> session_request e (redownload_request sess loan_id) st))"

text \<open>
  The end of \<open>download_book_by_id\<close>, common to its two branches: one redirect followed
  by hand (\<open>response.headers["Location"]\<close> raises \<open>KeyError\<close> when the header is
  missing), then the test for the fulfillment token.
\<close>

definition follow_redirect ::
  "env \<Rightarrow> session \<Rightarrow> response \<Rightarrow> state \<Rightarrow> (exn + response) \<times> state" where
  "follow_redirect e sess response0 st0 =
     (if status_code response0 = 302
      then (case resp_headers response0 ''Location'' of
              None \<Rightarrow> (Inl (Exn ''KeyError''), st0)
            | Some loc \<Rightarrow> session_request e (follow_request sess loc) st0)
      else (Inr response0, st0))"

definition finish_download ::
  "env \<Rightarrow> session \<Rightarrow> string \<Rightarrow> response \<Rightarrow> state \<Rightarrow> (exn + string option) \<times> state" where
  "finish_download e sess bid response0 st0 =
     (case follow_redirect e sess response0 st0 of
        (Inl x, st) \<Rightarrow> (Inl x, st)
      | (Inr response, st) \<Rightarrow>
          if prefix ''<fulfillmentToken'' (resp_text response)
          then (Inr (Some (resp_content response)),
                logging INFO (''Book '' @ bid @ '' downloaded'') st)
          else (Inr None,
                logging DEBUG (resp_text response)
                  (logging ERROR (''Failed to download book '' @ bid) st)))"

text \<open>
  \<open>book.status\<close> on the \<open>None\<close> that \<open>get_book_by_id\<close> returns for a book it did not
  find raises \<open>AttributeError\<close>.
\<close>

definition download_book_by_id ::
  "env \<Rightarrow> session \<Rightarrow> string \<Rightarrow> state \<Rightarrow> (exn + string option) \<times> state" where
  "download_book_by_id e sess bid st0 =
     (if \<not> authenticated sess then (Inr None, logging ERROR auth_message st0)
      else
        (case get_book_by_id e sess bid st0 of
           (Inl x, st) \<Rightarrow> (Inl x, st)
         | (Inr None, st) \<Rightarrow> (Inl (Exn ''AttributeError''), st)
         | (Inr (Some book), st) \<Rightarrow>
             if status book = Some ''owned''
             then (case redownload_owned_book e sess bid
                          (logging INFO ''You already own this book. Redownloading...'' st) of
                     (Inl x, st) \<Rightarrow> (Inl x, st)
                   | (Inr response, st) \<Rightarrow> finish_download e sess bid response st)
             else if status book \<noteq> Some ''available''
             then (Inr None,
                   logging ERROR
                     (''Book is not available for download. Status: '' @ str_opt (status book)) st)
             else (case session_request e (download_request sess bid) st of
                     (Inl x, st) \<Rightarrow> (Inl x, st)
                   | (Inr response, st) \<Rightarrow> finish_download e sess bid response st)))"

section \<open>reserve\_book\_by\_id\<close>

definition reserve_request :: "session \<Rightarrow> string \<Rightarrow> string \<Rightarrow> request" where
  "reserve_request sess bid email =
     \<lparr>http_method = ''GET'',
      url = ENDPOINTS ''reserve'' @ ''?id='' @ bid @ ''&email='' @ email,
      params = [],
      headers = session_headers sess ++
        [''Host'' \<mapsto> host_of sess,
         ''Referer'' \<mapsto> base_url sess @ ENDPOINTS ''pre_reserve'' @ ''?id='' @ bid,
         ''Accept'' \<mapsto> ''text/html, */*; q=0.01''],
      allow_redirects = True\<rparr>"

text \<open>The outcome read from the reservation response, with what is logged.\<close>

definition reserve_outcome :: "string \<Rightarrow> element option \<Rightarrow> state \<Rightarrow> bool option \<times> state" where
  "reserve_outcome bid outcome st =
     (case outcome of
        Some el \<Rightarrow>
          (let message = py_lower (py_strip (el_text el)) in
           if py_in ''con successo'' message then (Some True, st)
           else if py_in ''prenotazione attiva'' message
           then (Some True,
                 logging WARNING (''You already have an active reservation for book #'' @ bid) st)
           else (Some False, logging ERROR (''Failed to reserve book #'' @ bid) st))
      | None \<Rightarrow>
          (None,
           logging ERROR (''Failed to reserve book with ID '' @ bid @ '' (unknown outcome)'') st))"

definition reserve_book_by_id ::
  "env \<Rightarrow> session \<Rightarrow> string \<Rightarrow> string \<Rightarrow> state \<Rightarrow> (exn + bool option) \<times> state" where
  "reserve_book_by_id e sess bid email st0 =
     (if \<not> authenticated sess then (Inr None, logging ERROR auth_message st0)
      else
        (case get_book_by_id e sess bid st0 of
           (Inl x, st) \<Rightarrow> (Inl x, st)
         | (Inr None, st) \<Rightarrow> (Inl (Exn ''AttributeError''), st)
         | (Inr (Some book), st) \<Rightarrow>
             (let st = (if status book \<noteq> Some ''taken''
                        then logging ERROR
                               (''You can only reserve taken books. Book status: ''
                                  @ str_opt (status book)) st
                        else st) in
              case session_request e (reserve_request sess bid email) st of
                (Inl x, st) \<Rightarrow> (Inl x, st)
              | (Inr response, st) \<Rightarrow>
                  (case reserve_outcome bid (lblInfo (BeautifulSoup e (resp_text response))) st of
                     (r, st) \<Rightarrow> (Inr r, st)))))"

section \<open>\_search\_books\_paginated\<close>

definition max_threads :: int where
  "max_threads = 5"

definition search_request :: "(string \<times> string) list \<Rightarrow> int \<Rightarrow> request" where
  "search_request req_params i =
     \<lparr>http_method = ''GET'', url = ENDPOINTS ''search'',
      params = AList.update ''page'' (str_nat (nat i)) req_params,
      headers = Map.empty, allow_redirects = True\<rparr>"

text \<open>
  \<open>list(executor.map(self.get_book_by_id, ids))\<close>: every call is submitted, and the
  results are collected in the order of submission. Collecting the result of a call that
  raised raises its exception inside the generator of \<open>executor.map\<close>, which turns a
  \<open>StopIteration\<close> into \<open>RuntimeError\<close>; the generator then cancels the calls still
  pending, and leaving the \<open>with\<close> block waits for the calls already started, whose
  results are dropped. The model runs the calls in the order of submission.
\<close>

definition reraised :: "exn \<Rightarrow> exn" where
  "reraised x = (if x = Exn ''StopIteration'' then Exn ''RuntimeError'' else x)"

fun run_started :: "env \<Rightarrow> session \<Rightarrow> string list \<Rightarrow> state \<Rightarrow> state" where
  "run_started e sess [] st = st"
| "run_started e sess (i # ids) st = run_started e sess ids (snd (get_book_by_id e sess i st))"

fun executor_map ::
  "env \<Rightarrow> session \<Rightarrow> string list \<Rightarrow> state \<Rightarrow> (exn + MLOLBook option list) \<times> state" where
  "executor_map e sess [] st = (Inr [], st)"
| "executor_map e sess (i # ids) st =
     (case get_book_by_id e sess i st of
        (Inl x, st1) \<Rightarrow>
          (Inl (reraised x),
           run_started e sess (take (started_ahead e (trace st1)) ids) st1)
      | (Inr b, st1) \<Rightarrow>
          (case executor_map e sess ids st1 of
             (Inl x, st2) \<Rightarrow> (Inl x, st2)
           | (Inr bs, st2) \<Rightarrow> (Inr (b # bs), st2)))"

text \<open>
  The sequential \<open>[self.get_book_by_id(i) for i in ids]\<close>, which stops at the first
  exception.
\<close>

fun sequential_map ::
  "env \<Rightarrow> session \<Rightarrow> string list \<Rightarrow> state \<Rightarrow> (exn + MLOLBook option list) \<times> state" where
  "sequential_map e sess [] st = (Inr [], st)"
| "sequential_map e sess (i # ids) st =
     (case get_book_by_id e sess i st of
        (Inl x, st1) \<Rightarrow> (Inl x, st1)
      | (Inr b, st1) \<Rightarrow>
          (case sequential_map e sess ids st1 of
             (Inl x, st2) \<Rightarrow> (Inl x, st2)
           | (Inr bs, st2) \<Rightarrow> (Inr (b # bs), st2)))"

text \<open>
  \<open>ThreadPoolExecutor(max_workers=n)\<close> raises \<open>ValueError\<close> when \<open>n \<le> 0\<close>. A batch is
  a list of optional records: the listing parser's records in a shallow search, the
  results of \<open>get_book_by_id\<close> in a deep one.
\<close>

definition deep_batch ::
  "env \<Rightarrow> session \<Rightarrow> MLOLBook list \<Rightarrow> state \<Rightarrow> (exn + MLOLBook option list) \<times> state" where
  "deep_batch e sess books st =
     (if min (int (length books)) max_threads \<le> 0 then (Inl (Exn ''ValueError''), st)
      else executor_map e sess (map book_id books) st)"

text \<open>
  One iteration of the loop over the pages: the response it parses, then the batch it
  yields, or the exception.
\<close>

definition page_response ::
  "env \<Rightarrow> (string \<times> string) list \<Rightarrow> int \<Rightarrow> response option \<Rightarrow> int \<Rightarrow> state \<Rightarrow>
     (exn + response) \<times> state" where
  "page_response e req_params pages first_response i st0 =
     (if pages = 1
      then (case first_response of
              None \<Rightarrow> (Inl (Exn ''AttributeError''), st0)
            | Some r \<Rightarrow> (Inr r, st0))
      else session_request e (search_request req_params i) st0)"

definition page_batch ::
  "env \<Rightarrow> session \<Rightarrow> (string \<times> string) list \<Rightarrow> int \<Rightarrow> bool \<Rightarrow> response option \<Rightarrow> int \<Rightarrow>
     state \<Rightarrow> (exn + MLOLBook option list) \<times> state" where
  "page_batch e sess req_params pages deep first_response i st0 =
     (case page_response e req_params pages first_response i st0 of
        (Inl x, st) \<Rightarrow> (Inl x, st)
      | (Inr response, st) \<Rightarrow>
          (case parse_search_page (search_view (BeautifulSoup e (resp_text response))) of
             (Inl x, lg) \<Rightarrow> (Inl x, st\<lparr>logged := logged st @ lg\<rparr>)
           | (Inr books, lg) \<Rightarrow>
               if deep then deep_batch e sess books (st\<lparr>logged := logged st @ lg\<rparr>)
               else (Inr (map Some books), st\<lparr>logged := logged st @ lg\<rparr>)))"

text \<open>
  The generator, consumed to its end: the batches it yields, and the exception that
  ended it, if one did.
\<close>

fun search_pages ::
  "env \<Rightarrow> session \<Rightarrow> (string \<times> string) list \<Rightarrow> int \<Rightarrow> bool \<Rightarrow> response option \<Rightarrow> int list \<Rightarrow>
     state \<Rightarrow> (MLOLBook option list list \<times> exn option) \<times> state" where
  "search_pages e sess req_params pages deep first_response [] st = (([], None), st)"
| "search_pages e sess req_params pages deep first_response (i # rest) st =
     (case page_batch e sess req_params pages deep first_response i st of
        (Inl x, st1) \<Rightarrow> (([], Some x), st1)
      | (Inr batch, st1) \<Rightarrow>
          (case search_pages e sess req_params pages deep first_response rest st1 of
             ((bs, x), st2) \<Rightarrow> ((batch # bs, x), st2)))"

definition search_books_paginated ::
  "env \<Rightarrow> session \<Rightarrow> (string \<times> string) list \<Rightarrow> int \<Rightarrow> bool \<Rightarrow> response option \<Rightarrow>
     state \<Rightarrow> (MLOLBook option list list \<times> exn option) \<times> state" where
  "search_books_paginated e sess req_params pages deep first_response st =
     search_pages e sess req_params pages deep first_response [1..pages] st"

definition id_title :: "MLOLBook \<Rightarrow> string \<times> string" where
  "id_title b = (book_id b, title b)"

section \<open>Example pages\<close>

text \<open>Concrete inputs, on which the theorems below are evaluated.\<close>

definition text_el :: "string \<Rightarrow> element" where
  "text_el t = \<lparr>attrs = Map.empty, el_string = Some t, el_text = t\<rparr>"

definition attr_el :: "string \<Rightarrow> string \<Rightarrow> element" where
  "attr_el k v = \<lparr>attrs = [k \<mapsto> v], el_string = None, el_text = []\<rparr>"

definition example_book_page :: book_page where
  "example_book_page =
     \<lparr>book_title_el = Some (text_el '' Il nome della rosa ''),
      authors_title_el = Some (text_el ''Eco, Umberto; Rossi, Mario''),
      publisher_el = Some (text_el ''Bompiani''),
      isbn_els = [text_el ''9788845246340'', text_el '' 9788858700143''],
      panel_mlol_el = Some (text_el ''  RIPETI DOWNLOAD  ''),
      description_div =
        Some [\<lparr>has_text = False, child_truthy = True, child_text = []\<rparr>,
              \<lparr>has_text = True, child_truthy = True, child_text = '' Un giallo medievale. ''\<rparr>],
      language_el = Some (text_el ''italiano''),
      year_el = Some (text_el '' 1980 ''),
      formato_span = Some (text_el ''EPUB/PDF con DRM Adobe'')\<rparr>"

definition example_item :: "string \<Rightarrow> string \<Rightarrow> element list \<Rightarrow> result_item" where
  "example_item t href as =
     \<lparr>find_h4 = Some (attr_el ''title'' t), find_a = Some (attr_el ''href'' href),
      select_authorref = as\<rparr>"

definition example_search_page :: search_page where
  "example_search_page =
     \<lparr>result_items =
        [example_item ''Il nome della rosa'' ''scheda.aspx?id=150123'' [text_el '' Eco, Umberto ; Rossi, Mario ''],
         example_item ''Senza numero'' ''scheda.aspx?id='' [],
         example_item ''Il pendolo di Foucault'' ''scheda.aspx?id=42'' []],
      find_p = None\<rparr>"

definition example_skip_page :: search_page where
  "example_skip_page =
     \<lparr>result_items = [example_item ''Senza numero'' ''scheda.aspx?id='' []], find_p = None\<rparr>"

definition example_unbound_page :: search_page where
  "example_unbound_page =
     \<lparr>result_items = [example_item ''Il pendolo di Foucault'' ''scheda.aspx?id=42'' []],
      find_p = Some (attr_el ''itemprop'' ''description'')\<rparr>"

text \<open>
  An example world. The detail page is the example page with the given status text; the
  resource list has the given loan links; the reservation answer has the given message
  element; the response text \<open>empty listing\<close> parses to a listing with no result item.
  The two download endpoints redirect to a server that answers with a fulfillment token.
\<close>

definition example_response :: "string \<Rightarrow> response" where
  "example_response t =
     \<lparr>status_code = 200, resp_url = ''https://ex.medialibrary.it/page'', resp_text = t,
      resp_content = t, resp_headers = Map.empty\<rparr>"

definition example_soup ::
  "string \<Rightarrow> element list option \<Rightarrow> element option \<Rightarrow> string \<Rightarrow> soup" where
  "example_soup panel loans info t =
     \<lparr>search_view =
        (if t = ''empty listing'' then \<lparr>result_items = [], find_p = None\<rparr>
         else example_search_page),
      book_view = example_book_page\<lparr>panel_mlol_el := Some (text_el panel)\<rparr>,
      loan_links = (\<lambda>bid. loans),
      lblInfo = info\<rparr>"

definition example_env :: "string \<Rightarrow> element list option \<Rightarrow> element option \<Rightarrow> env" where
  "example_env panel loans info =
     \<lparr>http = (\<lambda>tr req.
        if url req = ENDPOINTS ''redownload'' \<or> url req = ENDPOINTS ''download''
        then Inr ((example_response ''<html>'')
                    \<lparr>status_code := 302,
                     resp_headers := [''Location'' \<mapsto> ''https://acs.example/fulfill'']\<rparr>)
        else if url req = ''https://acs.example/fulfill''
        then Inr (example_response ''<fulfillmentToken>abc</fulfillmentToken>'')
        else Inr (example_response ''page'')),
      BeautifulSoup = example_soup panel loans info,
      browser_open = (\<lambda>u. Inr [\<lparr>form_fields = [''q'' \<mapsto> []]\<rparr>]),
      browser_submit = (\<lambda>f. Inr Map.empty),
      started_ahead = (\<lambda>tr. 1)\<rparr>"

text \<open>
  Two more worlds: one whose every response is a plain page without a fulfillment
  token, and one whose every response was redirected to the portal's \<open>alert.aspx\<close>
  notice.
\<close>

definition example_env_no_token :: "string \<Rightarrow> element list option \<Rightarrow> env" where
  "example_env_no_token panel loans =
     (example_env panel loans None)
       \<lparr>http := (\<lambda>tr req. Inr (example_response ''<html>error</html>''))\<rparr>"

definition example_env_alert :: env where
  "example_env_alert =
     (example_env ''Scarica'' None None)
       \<lparr>http := (\<lambda>tr req.
          Inr ((example_response ''notice'')
                 \<lparr>resp_url := ''https://ex.medialibrary.it/alert.aspx''\<rparr>))\<rparr>"

definition example_session :: session where
  "example_session =
     \<lparr>base_url = ''https://ex.medialibrary.it'',
      session_headers = [''User-Agent'' \<mapsto> ''Mozilla/5.0''],
      cookies = [''.ASPXAUTH'' \<mapsto> ''token'']\<rparr>"

definition empty_state :: state where
  "empty_state = \<lparr>trace = [], logged = []\<rparr>"

definition raised :: "exn + 'a \<Rightarrow> exn option" where
  "raised r = (case r of Inl x \<Rightarrow> Some x | Inr _ \<Rightarrow> None)"

definition outcome :: "('a \<times> state) \<Rightarrow> 'a \<times> string list \<times> log_entry list" where
  "outcome r = (fst r, map url (trace (snd r)), logged (snd r))"

section \<open>Facts about the string primitives\<close>

lemma py_in_iff: "py_in sub s \<longleftrightarrow> (\<exists>p q. s = p @ sub @ q)"
proof (induction s)
  case Nil
  then show ?case by auto
next
  case (Cons c cs)
  have "sublist sub (c # cs) \<longleftrightarrow> prefix sub (c # cs) \<or> sublist sub cs"
    by (rule sublist_Cons_right)
  moreover have "py_in sub cs \<longleftrightarrow> sublist sub cs"
    using Cons.IH by (simp add: sublist_def)
  ultimately show ?case
    by (simp add: sublist_def)
qed

lemma is_space_lower_char: "is_space (lower_char c) = is_space c"
proof -
  have "of_char (char_of (of_char c + 32 :: nat)) = (of_char c + 32 :: nat)"
    if "(of_char c :: nat) \<le> 222"
    using that by simp
  then show ?thesis
    by (auto simp: is_space_def lower_char_def Let_def)
qed

lemma py_in_rev: "py_in (rev kw) (rev s) = py_in kw s"
proof -
  have "(\<exists>p q. rev s = p @ rev kw @ q) \<longleftrightarrow> (\<exists>p q. s = p @ kw @ q)"
  proof
    assume "\<exists>p q. rev s = p @ rev kw @ q"
    then obtain p q where "rev s = p @ rev kw @ q" by blast
    then have "rev (rev s) = rev (p @ rev kw @ q)" by (rule arg_cong)
    then have "s = rev q @ kw @ rev p" by simp
    then show "\<exists>p q. s = p @ kw @ q" by blast
  next
    assume "\<exists>p q. s = p @ kw @ q"
    then obtain p q where "s = p @ kw @ q" by blast
    then have "rev s = rev q @ rev kw @ rev p" by simp
    then show "\<exists>p q. rev s = p @ rev kw @ q" by blast
  qed
  then show ?thesis by (simp add: py_in_iff)
qed

lemma py_in_lower_dropWhile:
  assumes "kw \<noteq> []" and "\<not> is_space (hd kw)"
  shows "py_in kw (py_lower (dropWhile is_space s)) = py_in kw (py_lower s)"
proof (induction s)
  case Nil
  then show ?case by simp
next
  case (Cons c cs)
  show ?case
  proof (cases "is_space c")
    case True
    from assms obtain k ks where kw: "kw = k # ks" and k: "\<not> is_space k"
      by (cases kw) auto
    have "\<not> prefix kw (lower_char c # py_lower cs)"
      using True k by (auto simp: kw is_space_lower_char)
    with True Cons.IH show ?thesis
      by (simp add: py_lower_def)
  next
    case False
    then show ?thesis by simp
  qed
qed

lemma py_in_lower_strip:
  assumes "kw \<noteq> []" and "\<not> is_space (hd kw)" and "\<not> is_space (last kw)"
  shows "py_in kw (py_lower (py_strip s)) = py_in kw (py_lower s)"
proof -
  let ?m = "dropWhile is_space s"
  have r: "rev kw \<noteq> []" "\<not> is_space (hd (rev kw))"
    using assms by (simp_all add: hd_rev)
  have "py_in kw (py_lower (py_strip s)) = py_in (rev kw) (rev (py_lower (py_strip s)))"
    by (simp add: py_in_rev)
  also have "rev (py_lower (py_strip s)) = py_lower (dropWhile is_space (rev ?m))"
    by (simp add: py_lower_def py_strip_def rev_map)
  also have "py_in (rev kw) (py_lower (dropWhile is_space (rev ?m))) = py_in (rev kw) (py_lower (rev ?m))"
    using r by (rule py_in_lower_dropWhile)
  also have "py_lower (rev ?m) = rev (py_lower ?m)"
    by (simp add: py_lower_def rev_map)
  also have "py_in (rev kw) (rev (py_lower ?m)) = py_in kw (py_lower ?m)"
    by (rule py_in_rev)
  also have "\<dots> = py_in kw (py_lower s)"
    using assms(1,2) by (rule py_in_lower_dropWhile)
  finally show ?thesis .
qed

lemma map_eq_appendD:
  "map f xs = ys @ zs \<Longrightarrow> \<exists>us vs. xs = us @ vs \<and> map f us = ys \<and> map f vs = zs"
proof -
  assume "map f xs = ys @ zs"
  then have "xs = take (length ys) xs @ drop (length ys) xs
      \<and> map f (take (length ys) xs) = ys \<and> map f (drop (length ys) xs) = zs"
    by (metis append_eq_conv_conj append_take_drop_id drop_map take_map)
  then show ?thesis by blast
qed

lemma py_in_lower_iff:
  "py_in kw (py_lower s) \<longleftrightarrow> (\<exists>p w q. s = p @ w @ q \<and> py_lower w = kw)"
proof
  assume "py_in kw (py_lower s)"
  then obtain p q where "map lower_char s = p @ (kw @ q)"
    unfolding py_in_iff py_lower_def by blast
  then obtain us vs where s: "s = us @ vs" and vs: "map lower_char vs = kw @ q"
    using map_eq_appendD by blast
  from vs obtain ws xs where "vs = ws @ xs" and "map lower_char ws = kw"
    using map_eq_appendD by blast
  with s have "s = us @ ws @ xs \<and> py_lower ws = kw"
    by (simp add: py_lower_def)
  then show "\<exists>p w q. s = p @ w @ q \<and> py_lower w = kw" by blast
next
  assume "\<exists>p w q. s = p @ w @ q \<and> py_lower w = kw"
  then obtain p w q where "s = p @ w @ q" and "py_lower w = kw" by blast
  then have "py_lower s = py_lower p @ kw @ py_lower q"
    by (simp add: py_lower_def)
  then show "py_in kw (py_lower s)"
    unfolding py_in_iff by blast
qed
section \<open>C1: the status vocabulary\<close>

text \<open>
  C1, as the code has it. The keywords are tried in the order of the \<open>if\<close> chain, and the
  first one that occurs decides: \<open>scarica\<close> gives \<open>available\<close>; otherwise \<open>ripeti\<close>
  gives \<open>owned\<close>; otherwise \<open>prenotato\<close> gives \<open>reserved\<close>; otherwise \<open>occupato\<close>
  gives \<open>taken\<close>; otherwise \<open>non disponibile\<close> gives \<open>unavailable\<close>; any other text
  gives \<open>None\<close>, the unknown status. The function is total: no text raises. A keyword
  occurs in any case and at any position: the test on the trimmed, lower-cased text is the
  test \<open>py_in kw (py_lower s)\<close> on the text as given, which \<open>py_in_lower_iff\<close> reads as
  a run of \<open>s\<close> that lower-cases to the keyword. The text \<open>"  RIPETI DOWNLOAD  "\<close> gives
  \<open>owned\<close>.
\<close>

theorem parse_book_status_first_match:
  "parse_book_status s =
     (if py_in ''scarica'' (py_lower s) then Some ''available''
      else if py_in ''ripeti'' (py_lower s) then Some ''owned''
      else if py_in ''prenotato'' (py_lower s) then Some ''reserved''
      else if py_in ''occupato'' (py_lower s) then Some ''taken''
      else if py_in ''non disponibile'' (py_lower s) then Some ''unavailable''
      else None)
   \<and> parse_book_status ''  RIPETI DOWNLOAD  '' = Some ''owned''"
proof -
  have k: "py_in ''scarica'' (py_lower (py_strip s)) = py_in ''scarica'' (py_lower s)"
    "py_in ''ripeti'' (py_lower (py_strip s)) = py_in ''ripeti'' (py_lower s)"
    "py_in ''prenotato'' (py_lower (py_strip s)) = py_in ''prenotato'' (py_lower s)"
    "py_in ''occupato'' (py_lower (py_strip s)) = py_in ''occupato'' (py_lower s)"
    "py_in ''non disponibile'' (py_lower (py_strip s)) = py_in ''non disponibile'' (py_lower s)"
    by (rule py_in_lower_strip; simp add: is_space_def)+
  have a: "parse_book_status s =
     (if py_in ''scarica'' (py_lower s) then Some ''available''
      else if py_in ''ripeti'' (py_lower s) then Some ''owned''
      else if py_in ''prenotato'' (py_lower s) then Some ''reserved''
      else if py_in ''occupato'' (py_lower s) then Some ''taken''
      else if py_in ''non disponibile'' (py_lower s) then Some ''unavailable''
      else None)"
    unfolding parse_book_status_def Let_def k by (rule refl)
  have b: "parse_book_status ''  RIPETI DOWNLOAD  '' = Some ''owned''"
    by code_simp
  from a b show ?thesis by (rule conjI)
qed

text \<open>
  C1 as stated fails where two keywords occur: the text \<open>scarica ripeti\<close> contains
  \<open>ripeti\<close>, and its status is \<open>available\<close>, not \<open>owned\<close>.
\<close>

theorem parse_book_status_overlap_counterexample:
  "py_in ''ripeti'' (py_lower (py_strip ''scarica ripeti''))
   \<and> parse_book_status ''scarica ripeti'' = Some ''available''
   \<and> parse_book_status ''scarica ripeti'' \<noteq> Some ''owned''"
  by code_simp

section \<open>C7: the combined format/DRM string\<close>

lemma parse_book_page_via_formats:
  "parse_book_page page = (Inr bd, lg) \<Longrightarrow> \<exists>bd0. parse_formats page bd0 = (bd, lg)"
  unfolding parse_book_page_def Let_def
  by (auto split: sum.splits prod.splits)

lemma parse_formats_token:
  "parse_formats page bd0 = (bd, lg) \<Longrightarrow> formato_span page = Some sp \<Longrightarrow>
   py_split (py_strip (el_text sp)) = tok # toks \<Longrightarrow>
   bd_formats bd = Some (map (\<lambda>f. py_lower (py_strip f)) (py_split_on CHR ''/'' tok))
   \<and> bd_drm bd = Some (py_in ''drm'' (py_lower (py_strip (el_text sp))))"
  by (auto simp: parse_formats_def Let_def)

lemma ex_a: "py_split (py_strip ''EPUB/PDF con DRM Adobe'') = ''EPUB/PDF'' # [''con'', ''DRM'', ''Adobe'']"
  by code_simp
lemma ex_a2: "map (\<lambda>f. py_lower (py_strip f)) (py_split_on CHR ''/'' ''EPUB/PDF'') = [''epub'', ''pdf'']"
  by code_simp
lemma ex_a3: "py_in ''drm'' (py_lower (py_strip ''EPUB/PDF con DRM Adobe'')) = True"
  by code_simp
lemma ex_b: "py_split (py_strip ''PDF senza protezioni'') = ''PDF'' # [''senza'', ''protezioni'']"
  by code_simp
lemma ex_b2: "map (\<lambda>f. py_lower (py_strip f)) (py_split_on CHR ''/'' ''PDF'') = [''pdf'']"
  by code_simp
lemma ex_b3: "py_in ''drm'' (py_lower (py_strip ''PDF senza protezioni'')) = False"
  by code_simp

text \<open>
  C7. The combined format/DRM string is the trimmed text of the \<open>span\<close> found next to
  the \<open>FORMATO\<close> label. Whenever the detail parser returns, \<open>formats\<close> is the first
  whitespace-delimited token of that string, split on \<open>/\<close>, each piece trimmed and
  lower-cased, and \<open>drm\<close> tells whether the lower-cased whole string contains \<open>drm\<close>.
  \<open>"EPUB/PDF con DRM Adobe"\<close> gives \<open>["epub", "pdf"]\<close> and \<open>True\<close>;
  \<open>"PDF senza protezioni"\<close> gives \<open>["pdf"]\<close> and \<open>False\<close>.
\<close>

theorem parse_book_page_formats:
  "(parse_book_page page = (Inr bd, lg) \<and> formato_span page = Some sp
      \<and> py_split (py_strip (el_text sp)) = tok # toks \<longrightarrow>
      bd_formats bd = Some (map (\<lambda>f. py_lower (py_strip f)) (py_split_on CHR ''/'' tok))
      \<and> bd_drm bd = Some (py_in ''drm'' (py_lower (py_strip (el_text sp)))))
   \<and> (parse_book_page page = (Inr bd, lg) \<and> formato_span page = Some sp
      \<and> el_text sp = ''EPUB/PDF con DRM Adobe'' \<longrightarrow>
      bd_formats bd = Some [''epub'', ''pdf''] \<and> bd_drm bd = Some True)
   \<and> (parse_book_page page = (Inr bd, lg) \<and> formato_span page = Some sp
      \<and> el_text sp = ''PDF senza protezioni'' \<longrightarrow>
      bd_formats bd = Some [''pdf''] \<and> bd_drm bd = Some False)"
proof (intro conjI impI)
  assume h: "parse_book_page page = (Inr bd, lg) \<and> formato_span page = Some sp
      \<and> py_split (py_strip (el_text sp)) = tok # toks"
  then obtain bd0 where "parse_formats page bd0 = (bd, lg)"
    using parse_book_page_via_formats by blast
  with h have r: "bd_formats bd = Some (map (\<lambda>f. py_lower (py_strip f)) (py_split_on CHR ''/'' tok))
    \<and> bd_drm bd = Some (py_in ''drm'' (py_lower (py_strip (el_text sp))))"
    using parse_formats_token by blast
  from r show "bd_formats bd = Some (map (\<lambda>f. py_lower (py_strip f)) (py_split_on CHR ''/'' tok))" ..
  from r show "bd_drm bd = Some (py_in ''drm'' (py_lower (py_strip (el_text sp))))" ..
next
  assume h: "parse_book_page page = (Inr bd, lg) \<and> formato_span page = Some sp
      \<and> el_text sp = ''EPUB/PDF con DRM Adobe''"
  then obtain bd0 where p: "parse_formats page bd0 = (bd, lg)"
    using parse_book_page_via_formats by blast
  from h have "py_split (py_strip (el_text sp)) = ''EPUB/PDF'' # [''con'', ''DRM'', ''Adobe'']"
    by (simp only: ex_a)
  with p h have r: "bd_formats bd = Some (map (\<lambda>f. py_lower (py_strip f)) (py_split_on CHR ''/'' ''EPUB/PDF''))
    \<and> bd_drm bd = Some (py_in ''drm'' (py_lower (py_strip (el_text sp))))"
    using parse_formats_token by blast
  from r show "bd_formats bd = Some [''epub'', ''pdf'']" by (simp only: ex_a2)
  from r h show "bd_drm bd = Some True" by (simp only: ex_a3)
next
  assume h: "parse_book_page page = (Inr bd, lg) \<and> formato_span page = Some sp
      \<and> el_text sp = ''PDF senza protezioni''"
  then obtain bd0 where p: "parse_formats page bd0 = (bd, lg)"
    using parse_book_page_via_formats by blast
  from h have "py_split (py_strip (el_text sp)) = ''PDF'' # [''senza'', ''protezioni'']"
    by (simp only: ex_b)
  with p h have r: "bd_formats bd = Some (map (\<lambda>f. py_lower (py_strip f)) (py_split_on CHR ''/'' ''PDF''))
    \<and> bd_drm bd = Some (py_in ''drm'' (py_lower (py_strip (el_text sp))))"
    using parse_formats_token by blast
  from r show "bd_formats bd = Some [''pdf'']" by (simp only: ex_b2)
  from r h show "bd_drm bd = Some False" by (simp only: ex_b3)
qed

theorem parse_book_page_formats_witness:
  "\<exists>bd. parse_book_page example_book_page = (Inr bd, [])
     \<and> formato_span example_book_page = Some (text_el ''EPUB/PDF con DRM Adobe'')
     \<and> el_text (text_el ''EPUB/PDF con DRM Adobe'') = ''EPUB/PDF con DRM Adobe''
     \<and> bd_formats bd = Some [''epub'', ''pdf''] \<and> bd_drm bd = Some True"
proof -
  let ?sp = "text_el ''EPUB/PDF con DRM Adobe''"
  have "isl (fst (parse_book_page example_book_page)) = False
      \<and> snd (parse_book_page example_book_page) = []"
    by code_simp
  then obtain bd where h1: "parse_book_page example_book_page = (Inr bd, [])"
    by (cases "parse_book_page example_book_page"; cases "fst (parse_book_page example_book_page)") auto
  have h2: "formato_span example_book_page = Some ?sp"
    by (simp add: example_book_page_def)
  have h3: "el_text ?sp = ''EPUB/PDF con DRM Adobe''"
    by (simp add: text_el_def)
  have "bd_formats bd = Some [''epub'', ''pdf''] \<and> bd_drm bd = Some True"
    using parse_book_page_formats [of example_book_page bd "[]" ?sp, THEN conjunct2, THEN conjunct1]
      h1 h2 h3 by blast
  with h1 h2 h3 show ?thesis by blast
qed

section \<open>C2: one field's markup and the other fields\<close>

lemma parse_book_page_no_description:
  "description_div page = None \<Longrightarrow> parse_book_page page = (Inl (Exn ''TypeError''), [])"
  by (simp add: parse_book_page_def next_text_child_def Let_def)

text \<open>
  C2 asks that an absent description block or a year that is no integer neither raises
  nor costs the other fields. In the code they raise, and the caller gets no field at
  all: on the example page, which parses to a full record, taking the description block
  away raises \<open>TypeError\<close> (\<open>filter\<close> over \<open>None\<close>), a description block with no
  child that has a \<open>text\<close> raises \<open>StopIteration\<close>, and the year text \<open>s.d.\<close> raises
  \<open>ValueError\<close>. \<open>parse_book_page_no_description\<close> is the first of these for every
  page.
\<close>

theorem parse_book_page_field_failure_raises:
  "fst (parse_book_page (example_book_page\<lparr>description_div := None\<rparr>)) = Inl (Exn ''TypeError'')
   \<and> fst (parse_book_page (example_book_page\<lparr>description_div := Some []\<rparr>)) = Inl (Exn ''StopIteration'')
   \<and> fst (parse_book_page (example_book_page\<lparr>year_el := Some (text_el ''s.d.'')\<rparr>)) = Inl (Exn ''ValueError'')
   \<and> isl (fst (parse_book_page example_book_page)) = False"
  by code_simp

section \<open>C3: the listing parser\<close>

lemma id_title_listing_book: "id_title (listing_book i t a) = (i, t)"
  by (simp add: id_title_def listing_book_def)

lemma parse_search_items_records:
  "parse_search_items page i av items = (Inr books, lg) \<Longrightarrow>
     map id_title books = List.map_filter extract_id_title items
     \<and> lg = map (\<lambda>(j, b). skip_message j)
             (filter (\<lambda>(j, b). extract_id_title b = None) (List.enumerate i items))"
proof (induction items arbitrary: i av books lg)
  case Nil
  then show ?case by (simp add: List.map_filter_simps)
next
  case (Cons b rest)
  show ?case
  proof (cases "extract_id_title b")
    case None
    with Cons.prems obtain lg' where
      r: "parse_search_items page (i + 1) av rest = (Inr books, lg')" and lg: "lg = skip_message i # lg'"
      by (auto split: prod.splits)
    from Cons.IH [OF r] None lg show ?thesis
      by (simp add: List.map_filter_simps)
  next
    case (Some it)
    obtain bid t where it: "it = (bid, t)" by (cases it)
    with Some Cons.prems obtain a bs where
      a: "extract_authors page b av = Bound a" and
      r: "parse_search_items page (i + 1) (Bound a) rest = (Inr bs, lg)" and
      books: "books = listing_book bid t a # bs"
      by (auto split: local_var.splits prod.splits sum.splits)
    from Cons.IH [OF r] Some it books show ?thesis
      by (simp add: List.map_filter_simps id_title_listing_book)
  qed
qed

lemma extract_authors_bound:
  "extract_authors page b Unbound \<noteq> Unbound \<Longrightarrow> extract_authors page b av \<noteq> Unbound"
  by (auto simp: extract_authors_def split: list.splits option.splits if_splits)

lemma parse_search_items_returns:
  "(\<And>b. b \<in> set items \<Longrightarrow> extract_id_title b \<noteq> None \<Longrightarrow> extract_authors page b Unbound \<noteq> Unbound)
   \<Longrightarrow> \<exists>books lg. parse_search_items page i av items = (Inr books, lg)"
proof (induction items arbitrary: i av)
  case Nil
  then show ?case by simp
next
  case (Cons b rest)
  have rest: "\<And>i av. \<exists>books lg. parse_search_items page i av rest = (Inr books, lg)"
    using Cons.IH Cons.prems by simp
  show ?case
  proof (cases "extract_id_title b")
    case None
    from rest obtain books lg where "parse_search_items page (i + 1) av rest = (Inr books, lg)"
      by blast
    with None show ?thesis by simp
  next
    case (Some it)
    obtain bid t where it: "it = (bid, t)" by (cases it)
    from Some Cons.prems have "extract_authors page b Unbound \<noteq> Unbound" by simp
    then have "extract_authors page b av \<noteq> Unbound" by (rule extract_authors_bound)
    then obtain a where a: "extract_authors page b av = Bound a"
      by (cases "extract_authors page b av") auto
    from rest obtain books lg where "parse_search_items page (i + 1) (Bound a) rest = (Inr books, lg)"
      by blast
    with Some it a show ?thesis by simp
  qed
qed

lemma length_map_filter:
  "length (List.map_filter f xs) = length (filter (\<lambda>x. f x \<noteq> None) xs)"
  by (induction xs) (auto simp: List.map_filter_simps split: option.splits)

lemma length_filter_enumerate:
  "length (filter (\<lambda>(j, b). P b) (List.enumerate i xs)) = length (filter P xs)"
  by (induction xs arbitrary: i) auto

lemma parse_search_items_partial:
  "parse_search_items page i av items = (Inr books, lg) \<Longrightarrow> b \<in> set books \<Longrightarrow>
     status b = None \<and> publisher b = None \<and> ISBNs b = None \<and> language b = None
     \<and> description b = None \<and> year b = None \<and> formats b = None \<and> drm b = None"
proof (induction items arbitrary: i av books lg)
  case Nil
  then show ?case by simp
next
  case (Cons x rest)
  show ?case
  proof (cases "extract_id_title x")
    case None
    with Cons.prems obtain lg' where "parse_search_items page (i + 1) av rest = (Inr books, lg')"
      by (auto split: prod.splits)
    with Cons.IH Cons.prems(2) show ?thesis by blast
  next
    case (Some it)
    obtain bid t where it: "it = (bid, t)" by (cases it)
    with Some Cons.prems obtain a bs where
      r: "parse_search_items page (i + 1) (Bound a) rest = (Inr bs, lg)" and
      books: "books = listing_book bid t a # bs"
      by (auto split: local_var.splits prod.splits sum.splits)
    from Cons.prems(2) books have "b = listing_book bid t a \<or> b \<in> set bs" by simp
    then show ?thesis
    proof
      assume "b = listing_book bid t a"
      then show ?thesis by (simp add: listing_book_def)
    next
      assume "b \<in> set bs"
      with Cons.IH r show ?thesis by blast
    qed
  qed
qed

text \<open>
  C3, as the code has it. Call an item valid when its title, link and ID can be
  extracted (\<open>extract_id_title\<close> is not \<open>None\<close>). Whenever the listing parser
  returns, it returns one partial record (ID, title, and authors or \<open>None\<close>; every other
  field \<open>None\<close>) for each of the N valid items, in document order, and its log is one
  entry of level \<open>ERROR\<close> for each of the K other items, in document order, each naming
  the item's 1-based position (\<open>skip_message j\<close> for the item at index \<open>j\<close>). It
  returns on every page on which the author lookup of each valid item assigns
  \<open>authors\<close> (an author link in the item, or a page whose first \<open>p\<close> is absent, has no
  \<open>itemprop\<close>, or has the \<open>itemprop\<close> \<open>author\<close>).
\<close>

theorem parse_search_page_records:
  "(parse_search_page page = (Inr books, lg) \<longrightarrow>
      map (\<lambda>b. (book_id b, title b)) books = List.map_filter extract_id_title (result_items page)
      \<and> length books = length (filter (\<lambda>b. extract_id_title b \<noteq> None) (result_items page))
      \<and> lg = map (\<lambda>(j, b). skip_message j)
               (filter (\<lambda>(j, b). extract_id_title b = None) (List.enumerate 0 (result_items page)))
      \<and> length lg = length (filter (\<lambda>b. extract_id_title b = None) (result_items page))
      \<and> (\<forall>b \<in> set books.
            status b = None \<and> publisher b = None \<and> ISBNs b = None \<and> language b = None
            \<and> description b = None \<and> year b = None \<and> formats b = None \<and> drm b = None))
   \<and> ((\<forall>b \<in> set (result_items page).
          extract_id_title b \<noteq> None \<longrightarrow> extract_authors page b Unbound \<noteq> Unbound) \<longrightarrow>
       (\<exists>books lg. parse_search_page page = (Inr books, lg)))"
proof (intro conjI impI)
  assume h: "parse_search_page page = (Inr books, lg)"
  then have r: "parse_search_items page 0 Unbound (result_items page) = (Inr books, lg)"
    by (simp add: parse_search_page_def)
  from parse_search_items_records [OF r]
  have m: "map id_title books = List.map_filter extract_id_title (result_items page)"
    and l: "lg = map (\<lambda>(j, b). skip_message j)
               (filter (\<lambda>(j, b). extract_id_title b = None) (List.enumerate 0 (result_items page)))"
    by simp_all
  from m show m': "map (\<lambda>b. (book_id b, title b)) books = List.map_filter extract_id_title (result_items page)"
    by (simp add: id_title_def [abs_def])
  from m' have "length books = length (List.map_filter extract_id_title (result_items page))"
    by (metis length_map)
  then show "length books = length (filter (\<lambda>b. extract_id_title b \<noteq> None) (result_items page))"
    by (simp add: length_map_filter)
  from l show "lg = map (\<lambda>(j, b). skip_message j)
               (filter (\<lambda>(j, b). extract_id_title b = None) (List.enumerate 0 (result_items page)))" .
  from l show "length lg = length (filter (\<lambda>b. extract_id_title b = None) (result_items page))"
    by (simp add: length_filter_enumerate)
  from r show "\<forall>b \<in> set books.
            status b = None \<and> publisher b = None \<and> ISBNs b = None \<and> language b = None
            \<and> description b = None \<and> year b = None \<and> formats b = None \<and> drm b = None"
    using parse_search_items_partial by blast
next
  assume "\<forall>b \<in> set (result_items page).
          extract_id_title b \<noteq> None \<longrightarrow> extract_authors page b Unbound \<noteq> Unbound"
  then show "\<exists>books lg. parse_search_page page = (Inr books, lg)"
    unfolding parse_search_page_def by (intro parse_search_items_returns) blast
qed

theorem parse_search_page_records_witness:
  "\<exists>books lg. parse_search_page example_search_page = (Inr books, lg)
     \<and> list_all (\<lambda>b. extract_id_title b = None \<or> extract_authors example_search_page b Unbound \<noteq> Unbound)
          (result_items example_search_page)
     \<and> map (\<lambda>b. (book_id b, title b)) books
         = [(''150123'', ''Il nome della rosa''), (''42'', ''Il pendolo di Foucault'')]
     \<and> lg = [(ERROR, ''Could not parse ID or title. Skipping book #2...'')]"
proof -
  have c: "list_all (\<lambda>b. extract_id_title b = None \<or> extract_authors example_search_page b Unbound \<noteq> Unbound)
          (result_items example_search_page)"
    by code_simp
  then have "\<forall>b \<in> set (result_items example_search_page).
          extract_id_title b \<noteq> None \<longrightarrow> extract_authors example_search_page b Unbound \<noteq> Unbound"
    by (auto simp: list_all_iff)
  with parse_search_page_records [of example_search_page, THEN conjunct2]
  obtain books lg where h: "parse_search_page example_search_page = (Inr books, lg)"
    by blast
  from parse_search_page_records [of example_search_page books lg, THEN conjunct1] h
  have m: "map (\<lambda>b. (book_id b, title b)) books
             = List.map_filter extract_id_title (result_items example_search_page)"
    and l: "lg = map (\<lambda>(j, b). skip_message j)
               (filter (\<lambda>(j, b). extract_id_title b = None)
                 (List.enumerate 0 (result_items example_search_page)))"
    by blast+
  have e1: "List.map_filter extract_id_title (result_items example_search_page)
      = [(''150123'', ''Il nome della rosa''), (''42'', ''Il pendolo di Foucault'')]"
    by code_simp
  have e2: "map (\<lambda>(j, b). skip_message j)
               (filter (\<lambda>(j, b). extract_id_title b = None)
                 (List.enumerate 0 (result_items example_search_page)))
      = [(ERROR, ''Could not parse ID or title. Skipping book #2...'')]"
    by code_simp
  from h c m l e1 e2 show ?thesis by metis
qed

text \<open>
  C3 as stated fails twice. The skip is logged with \<open>logging.error\<close>, not as a warning:
  the page with one malformed item logs one \<open>ERROR\<close> entry. And the page can abort: with
  one valid item that has no author link, on a page whose first \<open>p\<close> has the
  \<open>itemprop\<close> \<open>description\<close>, the variable \<open>authors\<close> is read unbound and the call
  raises \<open>UnboundLocalError\<close>.
\<close>

theorem parse_search_page_counterexample:
  "parse_search_page example_skip_page
     = (Inr [], [(ERROR, ''Could not parse ID or title. Skipping book #1...'')])
   \<and> extract_id_title (hd (result_items example_unbound_page)) = Some (''42'', ''Il pendolo di Foucault'')
   \<and> parse_search_page example_unbound_page = (Inl (Exn ''UnboundLocalError''), [])"
  by code_simp

section \<open>C9: the login page without a login form\<close>

text \<open>
  C9, as the code has it. When the login page has no form with a field named
  \<open>lusername\<close>, the list of matching forms is empty and indexing it raises
  \<open>IndexError\<close>; \<open>_get_auth_cookies\<close> catches nothing, so the construction of the
  client fails with \<open>IndexError\<close>. The repository defines no \<open>AuthenticationError\<close>.
\<close>

theorem get_auth_cookies_no_form:
  "browser_open e (base_url sess @ ENDPOINTS ''login'') = Inr forms
   \<and> (\<forall>f \<in> set forms. form_fields f ''lusername'' = None)
   \<longrightarrow> get_auth_cookies e sess username password = Inl (Exn ''IndexError'')"
proof
  assume h: "browser_open e (base_url sess @ ENDPOINTS ''login'') = Inr forms
   \<and> (\<forall>f \<in> set forms. form_fields f ''lusername'' = None)"
  then have "filter (\<lambda>f. form_fields f ''lusername'' \<noteq> None) forms = []"
    by (simp add: filter_empty_conv)
  with h show "get_auth_cookies e sess username password = Inl (Exn ''IndexError'')"
    by (simp add: get_auth_cookies_def)
qed

theorem get_auth_cookies_no_form_witness:
  "browser_open (example_env ''Scarica'' None None) (base_url example_session @ ENDPOINTS ''login'')
      = Inr [\<lparr>form_fields = [''q'' \<mapsto> []]\<rparr>]
   \<and> list_all (\<lambda>f. form_fields f ''lusername'' = None) [\<lparr>form_fields = [''q'' \<mapsto> []]\<rparr>]
   \<and> get_auth_cookies (example_env ''Scarica'' None None) example_session ''user'' ''secret''
      = Inl (Exn ''IndexError'')"
proof -
  let ?forms = "[\<lparr>form_fields = [''q'' \<mapsto> []]\<rparr>]"
  have h1: "browser_open (example_env ''Scarica'' None None)
      (base_url example_session @ ENDPOINTS ''login'') = Inr ?forms"
    by (simp add: example_env_def)
  have h2: "list_all (\<lambda>f. form_fields f ''lusername'' = None) ?forms"
    by simp
  then have h3: "\<forall>f \<in> set ?forms. form_fields f ''lusername'' = None"
    by simp
  from get_auth_cookies_no_form [of "example_env ''Scarica'' None None" example_session ?forms "''user''" "''secret''"]
    h1 h3
  have "get_auth_cookies (example_env ''Scarica'' None None) example_session ''user'' ''secret''
      = Inl (Exn ''IndexError'')"
    by blast
  with h1 h2 show ?thesis by blast
qed

text \<open>
  C9 as stated fails: on a login page whose only form has no \<open>lusername\<close> field the
  exception raised is \<open>IndexError\<close>, not \<open>AuthenticationError\<close>.
\<close>

theorem get_auth_cookies_counterexample:
  "raised (get_auth_cookies (example_env ''Scarica'' None None) example_session ''user'' ''secret'')
      = Some (Exn ''IndexError'')
   \<and> raised (get_auth_cookies (example_env ''Scarica'' None None) example_session ''user'' ''secret'')
      \<noteq> Some (Exn ''AuthenticationError'')"
  by code_simp

section \<open>C8: the outcome of a reservation\<close>

lemma get_book_by_id_example:
  assumes "(case fst (get_book_by_id e sess bid st) of Inr (Some b) \<Rightarrow> status b = s | _ \<Rightarrow> False)"
  obtains book st1 where "get_book_by_id e sess bid st = (Inr (Some book), st1)" and "status book = s"
proof -
  obtain r st1 where g: "get_book_by_id e sess bid st = (r, st1)"
    by (cases "get_book_by_id e sess bid st")
  with assms obtain book where "r = Inr (Some book)" and "status book = s"
    by (auto split: sum.splits option.splits)
  with g that show ?thesis by blast
qed

text \<open>
  C8, as the code has it. Take a call that reaches the reservation response: the session
  is authenticated, the book is found, and the reservation request returns. When the
  response has a result-message element, its trimmed, lower-cased text decides, the first
  test that holds winning: it contains \<open>con successo\<close>: \<open>True\<close>, nothing logged;
  otherwise it contains \<open>prenotazione attiva\<close>: \<open>True\<close>, with a warning logged;
  otherwise \<open>False\<close>, with an error logged. When the response has no such element the
  call logs the unknown-outcome error and returns \<open>None\<close>.
\<close>

theorem reserve_book_by_id_outcome:
  "authenticated sess
   \<and> get_book_by_id e sess bid st = (Inr (Some book), st1)
   \<and> session_request e (reserve_request sess bid email)
        (if status book \<noteq> Some ''taken''
         then logging ERROR (''You can only reserve taken books. Book status: '' @ str_opt (status book)) st1
         else st1) = (Inr response, st2)
   \<longrightarrow>
   (case lblInfo (BeautifulSoup e (resp_text response)) of
      Some el \<Rightarrow>
        (if py_in ''con successo'' (py_lower (py_strip (el_text el)))
         then reserve_book_by_id e sess bid email st = (Inr (Some True), st2)
         else if py_in ''prenotazione attiva'' (py_lower (py_strip (el_text el)))
         then reserve_book_by_id e sess bid email st =
                (Inr (Some True),
                 logging WARNING (''You already have an active reservation for book #'' @ bid) st2)
         else reserve_book_by_id e sess bid email st =
                (Inr (Some False), logging ERROR (''Failed to reserve book #'' @ bid) st2))
    | None \<Rightarrow>
        reserve_book_by_id e sess bid email st =
          (Inr None,
           logging ERROR (''Failed to reserve book with ID '' @ bid @ '' (unknown outcome)'') st2))"
  by (auto simp: reserve_book_by_id_def reserve_outcome_def Let_def split: option.splits)

theorem reserve_book_by_id_outcome_witness:
  "authenticated example_session
   \<and> (\<exists>book st1 response st2.
        get_book_by_id (example_env ''Occupato'' None (Some (text_el ''Hai una prenotazione attiva'')))
          example_session ''150123'' empty_state = (Inr (Some book), st1)
        \<and> status book = Some ''taken''
        \<and> session_request (example_env ''Occupato'' None (Some (text_el ''Hai una prenotazione attiva'')))
            (reserve_request example_session ''150123'' ''a@b.it'') st1 = (Inr response, st2)
        \<and> lblInfo (BeautifulSoup (example_env ''Occupato'' None (Some (text_el ''Hai una prenotazione attiva'')))
            (resp_text response)) = Some (text_el ''Hai una prenotazione attiva'')
        \<and> reserve_book_by_id (example_env ''Occupato'' None (Some (text_el ''Hai una prenotazione attiva'')))
            example_session ''150123'' ''a@b.it'' empty_state
          = (Inr (Some True),
             logging WARNING (''You already have an active reservation for book #'' @ ''150123'') st2))"
proof -
  let ?e = "example_env ''Occupato'' None (Some (text_el ''Hai una prenotazione attiva''))"
  have a: "authenticated example_session"
    by code_simp
  have "(case fst (get_book_by_id ?e example_session ''150123'' empty_state) of
           Inr (Some b) \<Rightarrow> status b = Some ''taken'' | _ \<Rightarrow> False)"
    by code_simp
  then obtain book st1 where
    g: "get_book_by_id ?e example_session ''150123'' empty_state = (Inr (Some book), st1)"
    and t: "status book = Some ''taken''"
    by (rule get_book_by_id_example)
  have "\<exists>response st2.
      session_request ?e (reserve_request example_session ''150123'' ''a@b.it'') st1 = (Inr response, st2)"
    by (simp add: session_request_def example_env_def)
  then obtain response st2 where
    r: "session_request ?e (reserve_request example_session ''150123'' ''a@b.it'') st1 = (Inr response, st2)"
    by blast
  have l: "lblInfo (BeautifulSoup ?e (resp_text response)) = Some (text_el ''Hai una prenotazione attiva'')"
    by (simp add: example_env_def example_soup_def)
  have m: "\<not> py_in ''con successo'' (py_lower (py_strip (el_text (text_el ''Hai una prenotazione attiva''))))"
    "py_in ''prenotazione attiva'' (py_lower (py_strip (el_text (text_el ''Hai una prenotazione attiva''))))"
    by code_simp+
  from reserve_book_by_id_outcome [of example_session ?e "''150123''" empty_state book st1 "''a@b.it''" response st2]
    a g t r
  have "(case lblInfo (BeautifulSoup ?e (resp_text response)) of
      Some el \<Rightarrow>
        (if py_in ''con successo'' (py_lower (py_strip (el_text el)))
         then reserve_book_by_id ?e example_session ''150123'' ''a@b.it'' empty_state = (Inr (Some True), st2)
         else if py_in ''prenotazione attiva'' (py_lower (py_strip (el_text el)))
         then reserve_book_by_id ?e example_session ''150123'' ''a@b.it'' empty_state =
                (Inr (Some True),
                 logging WARNING (''You already have an active reservation for book #'' @ ''150123'') st2)
         else reserve_book_by_id ?e example_session ''150123'' ''a@b.it'' empty_state =
                (Inr (Some False), logging ERROR (''Failed to reserve book #'' @ ''150123'') st2))
    | None \<Rightarrow>
        reserve_book_by_id ?e example_session ''150123'' ''a@b.it'' empty_state =
          (Inr None,
           logging ERROR (''Failed to reserve book with ID '' @ ''150123'' @ '' (unknown outcome)'') st2))"
    by simp
  with l m have "reserve_book_by_id ?e example_session ''150123'' ''a@b.it'' empty_state
          = (Inr (Some True),
             logging WARNING (''You already have an active reservation for book #'' @ ''150123'') st2)"
    by (simp only: option.case if_False if_True)
  with a g t r l show ?thesis by blast
qed

text \<open>
  C8 as stated fails on a message with both fragments: \<open>Prenotazione attiva con
  successo\<close> contains \<open>prenotazione attiva\<close>, and the call returns \<open>True\<close> with no
  warning logged.
\<close>

theorem reserve_book_by_id_counterexample:
  "py_in ''prenotazione attiva'' (py_lower (py_strip '' Prenotazione attiva con successo ''))
   \<and> outcome (reserve_book_by_id
        (example_env ''Occupato'' None (Some (text_el '' Prenotazione attiva con successo '')))
        example_session ''150123'' ''a@b.it'' empty_state)
     = (Inr (Some True),
        [''/media/scheda.aspx'', ''/media/prenota2.aspx?id=150123&email=a@b.it''],
        [(DEBUG, ''Fetching book 150123'')])"
  by code_simp

section \<open>C10 and C6: the batches of a deep search\<close>

lemma executor_map_length:
  "executor_map e sess ids st = (Inr bs, st') \<Longrightarrow> length bs = length ids"
proof (induction ids arbitrary: st bs st')
  case Nil
  then show ?case by simp
next
  case (Cons i ids)
  obtain r st1 where g: "get_book_by_id e sess i st = (r, st1)"
    by (cases "get_book_by_id e sess i st")
  obtain rs st2 where m: "executor_map e sess ids st1 = (rs, st2)"
    by (cases "executor_map e sess ids st1")
  from Cons.prems g m obtain b bs' where "rs = Inr bs'" and "bs = b # bs'"
    by (auto split: sum.splits)
  with Cons.IH m show ?case by auto
qed

lemma sequential_map_executor_map:
  "sequential_map e sess ids st = (Inr bs, st') \<Longrightarrow> executor_map e sess ids st = (Inr bs, st')"
proof (induction ids arbitrary: st bs st')
  case Nil
  then show ?case by simp
next
  case (Cons i ids)
  from Cons.prems obtain b st1 bs' where
    g: "get_book_by_id e sess i st = (Inr b, st1)" and
    m: "sequential_map e sess ids st1 = (Inr bs', st')" and
    bs: "bs = b # bs'"
    by (auto split: prod.splits sum.splits)
  from Cons.IH [OF m] g bs show ?case by simp
qed

lemma deep_batch_nonempty:
  "books \<noteq> [] \<Longrightarrow> deep_batch e sess books st = executor_map e sess (map book_id books) st"
proof -
  assume "books \<noteq> []"
  then have "0 < int (length books)" by simp
  then have "\<not> min (int (length books)) max_threads \<le> 0"
    unfolding max_threads_def by linarith
  then show ?thesis
    by (simp only: deep_batch_def if_False)
qed

lemma deep_batch_empty:
  "deep_batch e sess [] st = (Inl (Exn ''ValueError''), st)"
  by (simp add: deep_batch_def max_threads_def)

lemma deep_batch_result:
  "deep_batch e sess books st = (Inr batch, st') \<Longrightarrow> books \<noteq> [] \<and> length batch = length books"
proof (cases books)
  case Nil
  assume "deep_batch e sess books st = (Inr batch, st')"
  with Nil show ?thesis by (simp add: deep_batch_empty)
next
  case (Cons b bs)
  assume d: "deep_batch e sess books st = (Inr batch, st')"
  from Cons have ne: "books \<noteq> []" by simp
  with d have "executor_map e sess (map book_id books) st = (Inr batch, st')"
    by (simp add: deep_batch_nonempty)
  then have "length batch = length (map book_id books)"
    by (rule executor_map_length)
  with ne show ?thesis by simp
qed

lemma page_batch_deep_nonempty:
  "page_batch e sess req_params pages True first_response i st = (Inr batch, st2) \<Longrightarrow> batch \<noteq> []"
proof -
  assume p: "page_batch e sess req_params pages True first_response i st = (Inr batch, st2)"
  then obtain books st1 where "deep_batch e sess books st1 = (Inr batch, st2)"
    by (auto simp: page_batch_def split: prod.splits sum.splits)
  then have "books \<noteq> [] \<and> length batch = length books"
    by (rule deep_batch_result)
  then show ?thesis by auto
qed

lemma search_pages_deep_nonempty:
  "search_pages e sess req_params pages True first_response is st = ((bs, x), st') \<Longrightarrow>
     b \<in> set bs \<Longrightarrow> b \<noteq> []"
proof (induction "is" arbitrary: st bs x st')
  case Nil
  then show ?case by simp
next
  case (Cons i rest)
  show ?case
  proof (cases "page_batch e sess req_params pages True first_response i st")
    case (Pair r st1)
    show ?thesis
    proof (cases r)
      case (Inl y)
      with Pair Cons.prems show ?thesis by simp
    next
      case (Inr batch)
      obtain bs' x' st2 where
        s: "search_pages e sess req_params pages True first_response rest st1 = ((bs', x'), st2)"
        by (metis surj_pair)
      with Pair Inr Cons.prems(1) have bs: "bs = batch # bs'" by simp
      from Pair Inr have "batch \<noteq> []"
        using page_batch_deep_nonempty by blast
      with bs Cons.prems(2) Cons.IH [OF s] show ?thesis by auto
    qed
  qed
qed

lemma search_pages_append:
  "search_pages e sess req_params pages deep first_response xs st = ((bs, None), st1) \<Longrightarrow>
   search_pages e sess req_params pages deep first_response (xs @ ys) st =
     (case search_pages e sess req_params pages deep first_response ys st1 of
        ((bs', x), st2) \<Rightarrow> ((bs @ bs', x), st2))"
proof (induction xs arbitrary: st bs)
  case Nil
  then show ?case by (auto split: prod.splits)
next
  case (Cons i xs)
  from Cons.prems obtain batch sta bsa where
    p: "page_batch e sess req_params pages deep first_response i st = (Inr batch, sta)" and
    r: "search_pages e sess req_params pages deep first_response xs sta = ((bsa, None), st1)" and
    bs: "bs = batch # bsa"
    by (auto split: prod.splits sum.splits)
  from Cons.IH [OF r] p bs show ?case
    by (auto split: prod.splits)
qed

lemma search_books_paginated_at_page:
  assumes "1 \<le> i" and "i \<le> pages"
    and "search_pages e sess req_params pages deep first_response [1..i - 1] st0 = ((bs, None), st)"
  shows "search_books_paginated e sess req_params pages deep first_response st0 =
     (case search_pages e sess req_params pages deep first_response (i # [i + 1..pages]) st of
        ((bs', x), st2) \<Rightarrow> ((bs @ bs', x), st2))"
proof -
  from assms(1,2) have "[1..pages] = [1..i - 1] @ i # [i + 1..pages]"
    by (rule upto_split3)
  with search_pages_append [OF assms(3)] show ?thesis
    by (simp add: search_books_paginated_def)
qed

text \<open>
  C10. In a deep search, a page whose listing parse yields no record raises instead of
  yielding a batch: the pool is created with \<open>max_workers = min(0, 5) = 0\<close>, which
  \<open>ThreadPoolExecutor\<close> refuses with \<open>ValueError\<close>; a shallow search yields the
  empty list for the same page. This holds of the loop body and of the generator: when
  the pages before page \<open>i\<close> have yielded the batches \<open>bs\<close> and page \<open>i\<close> parses to
  no record, the deep generator has yielded \<open>bs\<close> and ends with \<open>ValueError\<close>, and the
  shallow generator yields \<open>bs\<close>, then the empty list, and goes on. So every batch a deep
  search yields is non-empty: it comes from a page with at least one parsed listing item.
\<close>

theorem deep_search_empty_page:
  "(page_response e req_params pages first_response i st = (Inr response, st1)
      \<and> parse_search_page (search_view (BeautifulSoup e (resp_text response))) = (Inr [], lg)
      \<longrightarrow>
      min (int (length ([] :: MLOLBook list))) max_threads = 0
      \<and> page_batch e sess req_params pages True first_response i st
          = (Inl (Exn ''ValueError''), st1\<lparr>logged := logged st1 @ lg\<rparr>)
      \<and> page_batch e sess req_params pages False first_response i st
          = (Inr [], st1\<lparr>logged := logged st1 @ lg\<rparr>))
   \<and> (page_batch e sess req_params pages True first_response i st = (Inr batch, st2)
      \<longrightarrow> batch \<noteq> [])
   \<and> (\<forall>b \<in> set (fst (fst (search_books_paginated e sess req_params pages True first_response st))).
        b \<noteq> [])
   \<and> (1 \<le> i \<and> i \<le> pages
      \<and> search_pages e sess req_params pages True first_response [1..i - 1] st0 = ((bs, None), st)
      \<and> page_response e req_params pages first_response i st = (Inr response, st1)
      \<and> parse_search_page (search_view (BeautifulSoup e (resp_text response))) = (Inr [], lg)
      \<longrightarrow>
      search_books_paginated e sess req_params pages True first_response st0
        = ((bs, Some (Exn ''ValueError'')), st1\<lparr>logged := logged st1 @ lg\<rparr>))
   \<and> (1 \<le> i \<and> i \<le> pages
      \<and> search_pages e sess req_params pages False first_response [1..i - 1] st0 = ((bs, None), st)
      \<and> page_response e req_params pages first_response i st = (Inr response, st1)
      \<and> parse_search_page (search_view (BeautifulSoup e (resp_text response))) = (Inr [], lg)
      \<longrightarrow>
      (\<exists>rest x st3.
         search_books_paginated e sess req_params pages False first_response st0
           = ((bs @ [] # rest, x), st3)))"
proof (intro conjI impI ballI)
  assume h: "page_response e req_params pages first_response i st = (Inr response, st1)
      \<and> parse_search_page (search_view (BeautifulSoup e (resp_text response))) = (Inr [], lg)"
  show "min (int (length ([] :: MLOLBook list))) max_threads = 0"
    by (simp add: max_threads_def)
  from h show "page_batch e sess req_params pages True first_response i st
          = (Inl (Exn ''ValueError''), st1\<lparr>logged := logged st1 @ lg\<rparr>)"
    by (simp add: page_batch_def deep_batch_empty)
  from h show "page_batch e sess req_params pages False first_response i st
          = (Inr [], st1\<lparr>logged := logged st1 @ lg\<rparr>)"
    by (simp add: page_batch_def)
next
  assume "page_batch e sess req_params pages True first_response i st = (Inr batch, st2)"
  then show "batch \<noteq> []" by (rule page_batch_deep_nonempty)
next
  fix b
  assume b: "b \<in> set (fst (fst (search_books_paginated e sess req_params pages True first_response st)))"
  obtain bs x st' where
    s: "search_pages e sess req_params pages True first_response [1..pages] st = ((bs, x), st')"
    by (metis surj_pair)
  with b have "b \<in> set bs" by (simp add: search_books_paginated_def)
  with s show "b \<noteq> []" by (rule search_pages_deep_nonempty)
next
  assume h: "1 \<le> i \<and> i \<le> pages
      \<and> search_pages e sess req_params pages True first_response [1..i - 1] st0 = ((bs, None), st)
      \<and> page_response e req_params pages first_response i st = (Inr response, st1)
      \<and> parse_search_page (search_view (BeautifulSoup e (resp_text response))) = (Inr [], lg)"
  then have p: "page_batch e sess req_params pages True first_response i st
          = (Inl (Exn ''ValueError''), st1\<lparr>logged := logged st1 @ lg\<rparr>)"
    by (simp add: page_batch_def deep_batch_empty)
  from h have "search_books_paginated e sess req_params pages True first_response st0 =
     (case search_pages e sess req_params pages True first_response (i # [i + 1..pages]) st of
        ((bs', x), st2) \<Rightarrow> ((bs @ bs', x), st2))"
    by (intro search_books_paginated_at_page) simp_all
  with p show "search_books_paginated e sess req_params pages True first_response st0
        = ((bs, Some (Exn ''ValueError'')), st1\<lparr>logged := logged st1 @ lg\<rparr>)"
    by simp
next
  assume h: "1 \<le> i \<and> i \<le> pages
      \<and> search_pages e sess req_params pages False first_response [1..i - 1] st0 = ((bs, None), st)
      \<and> page_response e req_params pages first_response i st = (Inr response, st1)
      \<and> parse_search_page (search_view (BeautifulSoup e (resp_text response))) = (Inr [], lg)"
  then have p: "page_batch e sess req_params pages False first_response i st
          = (Inr [], st1\<lparr>logged := logged st1 @ lg\<rparr>)"
    by (simp add: page_batch_def)
  from h have s: "search_books_paginated e sess req_params pages False first_response st0 =
     (case search_pages e sess req_params pages False first_response (i # [i + 1..pages]) st of
        ((bs', x), st2) \<Rightarrow> ((bs @ bs', x), st2))"
    by (intro search_books_paginated_at_page) simp_all
  obtain rest x st3 where
    "search_pages e sess req_params pages False first_response [i + 1..pages]
       (st1\<lparr>logged := logged st1 @ lg\<rparr>) = ((rest, x), st3)"
    by (metis surj_pair)
  with s p have "search_books_paginated e sess req_params pages False first_response st0
           = ((bs @ [] # rest, x), st3)"
    by simp
  then show "\<exists>rest x st3.
         search_books_paginated e sess req_params pages False first_response st0
           = ((bs @ [] # rest, x), st3)"
    by blast
qed

theorem deep_search_empty_page_witness:
  "page_response (example_env ''Scarica'' None None) [(''seltip'', ''310'')] 1
       (Some (example_response ''empty listing'')) 1 empty_state
     = (Inr (example_response ''empty listing''), empty_state)
   \<and> parse_search_page (search_view (BeautifulSoup (example_env ''Scarica'' None None)
         (resp_text (example_response ''empty listing'')))) = (Inr [], [])
   \<and> page_batch (example_env ''Scarica'' None None) example_session [(''seltip'', ''310'')] 1 True
       (Some (example_response ''empty listing'')) 1 empty_state
     = (Inl (Exn ''ValueError''), empty_state\<lparr>logged := logged empty_state @ []\<rparr>)
   \<and> page_batch (example_env ''Scarica'' None None) example_session [(''seltip'', ''310'')] 1 False
       (Some (example_response ''empty listing'')) 1 empty_state
     = (Inr [], empty_state\<lparr>logged := logged empty_state @ []\<rparr>)
   \<and> (\<exists>batch st2.
        page_batch (example_env ''Scarica'' None None) example_session [(''seltip'', ''310'')] 2 True
          None 1 empty_state = (Inr batch, st2)
        \<and> batch \<noteq> [])
   \<and> search_pages (example_env ''Scarica'' None None) example_session [(''seltip'', ''310'')] 1 True
       (Some (example_response ''empty listing'')) [1..1 - 1] empty_state
     = (([], None), empty_state)
   \<and> search_books_paginated (example_env ''Scarica'' None None) example_session
       [(''seltip'', ''310'')] 1 True (Some (example_response ''empty listing'')) empty_state
     = (([], Some (Exn ''ValueError'')), empty_state\<lparr>logged := logged empty_state @ []\<rparr>)
   \<and> search_pages (example_env ''Scarica'' None None) example_session [(''seltip'', ''310'')] 1 False
       (Some (example_response ''empty listing'')) [1..1 - 1] empty_state
     = (([], None), empty_state)
   \<and> (\<exists>rest x st3.
        search_books_paginated (example_env ''Scarica'' None None) example_session
          [(''seltip'', ''310'')] 1 False (Some (example_response ''empty listing'')) empty_state
        = (([] @ [] # rest, x), st3))"
proof -
  let ?e = "example_env ''Scarica'' None None"
  let ?rp = "[(''seltip'', ''310'')]"
  let ?fr = "Some (example_response ''empty listing'')"
  have h1: "page_response ?e ?rp 1 ?fr 1 empty_state
     = (Inr (example_response ''empty listing''), empty_state)"
    by (simp add: page_response_def)
  have h2: "parse_search_page (search_view (BeautifulSoup ?e
         (resp_text (example_response ''empty listing'')))) = (Inr [], [])"
    by code_simp
  note t = deep_search_empty_page [of ?e ?rp 1 ?fr 1 empty_state
      "example_response ''empty listing''" empty_state "[]" example_session _ _ empty_state "[]"]
  from t h1 h2 have c1: "page_batch ?e example_session ?rp 1 True ?fr 1 empty_state
     = (Inl (Exn ''ValueError''), empty_state\<lparr>logged := logged empty_state @ []\<rparr>)"
    by blast
  from t h1 h2 have c2: "page_batch ?e example_session ?rp 1 False ?fr 1 empty_state
     = (Inr [], empty_state\<lparr>logged := logged empty_state @ []\<rparr>)"
    by blast
  have "isl (fst (page_batch ?e example_session ?rp 2 True None 1 empty_state)) = False"
    by code_simp
  then obtain batch st2 where
    h3: "page_batch ?e example_session ?rp 2 True None 1 empty_state = (Inr batch, st2)"
    by (cases "page_batch ?e example_session ?rp 2 True None 1 empty_state";
        cases "fst (page_batch ?e example_session ?rp 2 True None 1 empty_state)") auto
  from deep_search_empty_page [of ?e ?rp 2 None 1 empty_state _ _ _ example_session batch st2] h3
  have c3: "batch \<noteq> []" by blast
  have i: "(1::int) \<le> 1 \<and> (1::int) \<le> 1"
    by simp
  have h4: "search_pages ?e example_session ?rp 1 True ?fr [1..1 - 1] empty_state
     = (([], None), empty_state)"
    by simp
  have h5: "search_pages ?e example_session ?rp 1 False ?fr [1..1 - 1] empty_state
     = (([], None), empty_state)"
    by simp
  from t i h4 h1 h2 have c4: "search_books_paginated ?e example_session ?rp 1 True ?fr empty_state
     = (([], Some (Exn ''ValueError'')), empty_state\<lparr>logged := logged empty_state @ []\<rparr>)"
    by blast
  from t i h5 h1 h2 have c5: "\<exists>rest x st3.
        search_books_paginated ?e example_session ?rp 1 False ?fr empty_state
        = (([] @ [] # rest, x), st3)"
    by blast
  from h1 h2 c1 c2 h3 c3 h4 c4 h5 c5 show ?thesis by blast
qed

text \<open>
  C6 asks, for every search-result page, that the deep batch be the sequential map of
  \<open>get_book_by_id\<close> over the IDs of the listing records. On a page with no listing
  record that map is the empty list, and the shallow search yields the empty list, but
  the deep search raises \<open>ValueError\<close> and yields nothing. On a page with at least
  one record the batch is \<open>executor_map\<close> over the IDs in listing order
  (\<open>deep_batch_nonempty\<close>), one element per record (\<open>executor_map_length\<close>), equal
  to the sequential map whenever that returns (\<open>sequential_map_executor_map\<close>).
\<close>

theorem deep_search_empty_page_raises:
  "fst (search_books_paginated (example_env ''Scarica'' None None) example_session
          [(''seltip'', ''310'')] 1 True (Some (example_response ''empty listing'')) empty_state)
     = ([], Some (Exn ''ValueError''))
   \<and> fst (sequential_map (example_env ''Scarica'' None None) example_session
          (map book_id []) empty_state) = Inr []
   \<and> fst (search_books_paginated (example_env ''Scarica'' None None) example_session
          [(''seltip'', ''310'')] 1 False (Some (example_response ''empty listing'')) empty_state)
     = ([[]], None)"
  by code_simp

section \<open>C4 and C5: download\_book\_by\_id\<close>

lemma trace_logging: "trace (logging lvl msg st) = trace st"
  by (simp add: logging_def)

lemma get_book_by_id_trace:
  "get_book_by_id e sess bid st = (r, st1) \<Longrightarrow> trace st1 = trace st @ [get_book_request bid]"
  by (auto simp: get_book_by_id_def session_request_def logging_def Let_def
      split: prod.splits sum.splits if_splits option.splits)

lemma redownload_owned_book_trace:
  "redownload_owned_book e sess bid st = (r, st2) \<Longrightarrow>
     trace st2 = trace st @ [resources_request]
     \<or> (\<exists>loan_id. trace st2 = trace st @ [resources_request, redownload_request sess loan_id])"
  by (auto simp: redownload_owned_book_def session_request_def logging_def
      split: prod.splits sum.splits)

lemma redownload_owned_book_loan:
  "session_request e resources_request st = (Inr response, stR) \<Longrightarrow>
   find_loan_id (BeautifulSoup e (resp_text response)) bid = Inr loan_id \<Longrightarrow>
   redownload_owned_book e sess bid st = (r, st2) \<Longrightarrow>
     trace st2 = trace st @ [resources_request, redownload_request sess loan_id]"
  by (auto simp: redownload_owned_book_def session_request_def)

lemma redownload_owned_book_not_found:
  "session_request e resources_request st = (Inr response, stR) \<Longrightarrow>
   find_loan_id (BeautifulSoup e (resp_text response)) bid = Inl x \<Longrightarrow>
   redownload_owned_book e sess bid st =
     (Inl x, logging ERROR (''Failed to find owned book '' @ bid @ '' in your profile'') stR)"
  by (simp add: redownload_owned_book_def)

lemma follow_redirect_trace:
  "follow_redirect e sess response st = (r, st2) \<Longrightarrow>
     trace st2 = trace st \<or> (\<exists>loc. trace st2 = trace st @ [follow_request sess loc])"
  by (auto simp: follow_redirect_def session_request_def split: if_splits option.splits)

lemma finish_download_trace:
  "finish_download e sess bid response st = (r, st2) \<Longrightarrow>
     trace st2 = trace st \<or> (\<exists>loc. trace st2 = trace st @ [follow_request sess loc])"
proof -
  assume f: "finish_download e sess bid response st = (r, st2)"
  obtain r1 st1 where fr: "follow_redirect e sess response st = (r1, st1)"
    by (cases "follow_redirect e sess response st")
  with f have "trace st2 = trace st1"
    by (auto simp: finish_download_def logging_def split: sum.splits if_splits)
  with follow_redirect_trace [OF fr] show ?thesis by simp
qed

lemma finish_download_no_marker:
  "follow_redirect e sess response st = (Inr response', st3) \<Longrightarrow>
   \<not> prefix ''<fulfillmentToken'' (resp_text response') \<Longrightarrow>
   finish_download e sess bid response st =
     (Inr None, logging DEBUG (resp_text response')
                  (logging ERROR (''Failed to download book '' @ bid) st3))"
  by (simp add: finish_download_def)

lemma download_unauthenticated:
  "\<not> authenticated sess \<Longrightarrow>
   download_book_by_id e sess bid st = (Inr None, logging ERROR auth_message st)"
  by (simp add: download_book_by_id_def)

lemma download_owned:
  "authenticated sess \<Longrightarrow> get_book_by_id e sess bid st = (Inr (Some book), st1) \<Longrightarrow>
   status book = Some ''owned'' \<Longrightarrow>
   download_book_by_id e sess bid st =
     (case redownload_owned_book e sess bid
             (logging INFO ''You already own this book. Redownloading...'' st1) of
        (Inl x, st2) \<Rightarrow> (Inl x, st2)
      | (Inr response, st2) \<Rightarrow> finish_download e sess bid response st2)"
  by (simp add: download_book_by_id_def)

lemma download_available:
  "authenticated sess \<Longrightarrow> get_book_by_id e sess bid st = (Inr (Some book), st1) \<Longrightarrow>
   status book = Some ''available'' \<Longrightarrow>
   download_book_by_id e sess bid st =
     (case session_request e (download_request sess bid) st1 of
        (Inl x, st2) \<Rightarrow> (Inl x, st2)
      | (Inr response, st2) \<Rightarrow> finish_download e sess bid response st2)"
  by (simp add: download_book_by_id_def)

lemma download_other:
  "authenticated sess \<Longrightarrow> get_book_by_id e sess bid st = (Inr (Some book), st1) \<Longrightarrow>
   status book \<noteq> Some ''owned'' \<Longrightarrow> status book \<noteq> Some ''available'' \<Longrightarrow>
   download_book_by_id e sess bid st =
     (Inr None,
      logging ERROR (''Book is not available for download. Status: '' @ str_opt (status book)) st1)"
  by (simp add: download_book_by_id_def)

lemma download_request_distinct:
  "download_request sess bid \<noteq> get_book_request b"
  "download_request sess bid \<noteq> resources_request"
  "download_request sess bid \<noteq> redownload_request sess l"
  "download_request sess bid \<noteq> follow_request sess loc"
proof -
  have "url (download_request sess bid) \<noteq> url (get_book_request b)"
    by (simp add: download_request_def get_book_request_def ENDPOINTS_def)
  then show "download_request sess bid \<noteq> get_book_request b"
    by auto
  have "url (download_request sess bid) \<noteq> url resources_request"
    by (simp add: download_request_def resources_request_def ENDPOINTS_def)
  then show "download_request sess bid \<noteq> resources_request"
    by auto
  have "url (download_request sess bid) \<noteq> url (redownload_request sess l)"
    by (simp add: download_request_def redownload_request_def ENDPOINTS_def)
  then show "download_request sess bid \<noteq> redownload_request sess l"
    by auto
  have "allow_redirects (download_request sess bid) \<noteq> allow_redirects (follow_request sess loc)"
    by (simp add: download_request_def follow_request_def)
  then show "download_request sess bid \<noteq> follow_request sess loc"
    by auto
qed

text \<open>
  The routing of \<open>download_book_by_id\<close>, for every outcome of the book lookup.
  Without an authenticated session cookie it returns \<open>None\<close> at once, with the
  authentication error logged and no request made. Otherwise its first request fetches
  the book (\<open>/media/scheda.aspx\<close> with the parameter \<open>id\<close>). When a record comes
  back it routes on the status. \<open>owned\<close>: the redownload sub-flow runs, so the next
  request is the resource list (\<open>/user/risorse.aspx\<close>), then, when the loan ID is
  found (the digits after \<open>idp=\<close> at the end of the loan link), the redownload endpoint
  (\<open>/help/dlrepeat.aspx\<close> with the parameter \<open>idp\<close>); the direct download request
  is not made. \<open>available\<close>: the next request is the direct download endpoint, with
  the parameters \<open>unid\<close> and \<open>form = epub\<close>. Any other status: \<open>None\<close>, with an
  error logged that reports the status, and no request after the book fetch. When the
  lookup returns no record, the call raises \<open>AttributeError\<close>; when the lookup raises,
  the call raises the same exception.
\<close>

theorem download_book_by_id_routing:
  "(\<not> authenticated sess \<longrightarrow>
      download_book_by_id e sess bid st = (Inr None, logging ERROR auth_message st)
      \<and> trace (snd (download_book_by_id e sess bid st)) = trace st)
   \<and> (authenticated sess \<and> get_book_by_id e sess bid st = (Inr (Some book), st1) \<longrightarrow>
        trace st1 = trace st @ [get_book_request bid]
        \<and> (status book = Some ''owned'' \<longrightarrow>
              download_book_by_id e sess bid st =
                (case redownload_owned_book e sess bid
                        (logging INFO ''You already own this book. Redownloading...'' st1) of
                   (Inl x, st2) \<Rightarrow> (Inl x, st2)
                 | (Inr response, st2) \<Rightarrow> finish_download e sess bid response st2)
              \<and> (\<exists>rest. trace (snd (download_book_by_id e sess bid st))
                     = trace st @ get_book_request bid # resources_request # rest
                   \<and> download_request sess bid \<notin> set rest)
              \<and> (\<forall>response stR loan_id.
                    session_request e resources_request
                        (logging INFO ''You already own this book. Redownloading...'' st1)
                      = (Inr response, stR)
                    \<and> find_loan_id (BeautifulSoup e (resp_text response)) bid = Inr loan_id
                    \<longrightarrow> (\<exists>rest. trace (snd (download_book_by_id e sess bid st))
                           = trace st @ get_book_request bid # resources_request
                               # redownload_request sess loan_id # rest)))
        \<and> (status book = Some ''available'' \<longrightarrow>
              download_book_by_id e sess bid st =
                (case session_request e (download_request sess bid) st1 of
                   (Inl x, st2) \<Rightarrow> (Inl x, st2)
                 | (Inr response, st2) \<Rightarrow> finish_download e sess bid response st2)
              \<and> (\<exists>rest. trace (snd (download_book_by_id e sess bid st))
                     = trace st @ get_book_request bid # download_request sess bid # rest)
              \<and> url (download_request sess bid) = ''/media/downloadebadok.aspx''
              \<and> params (download_request sess bid) = [(''unid'', bid), (''form'', ''epub'')])
        \<and> (status book \<noteq> Some ''owned'' \<and> status book \<noteq> Some ''available'' \<longrightarrow>
              download_book_by_id e sess bid st =
                (Inr None,
                 logging ERROR
                   (''Book is not available for download. Status: '' @ str_opt (status book)) st1)
              \<and> trace (snd (download_book_by_id e sess bid st)) = trace st @ [get_book_request bid]))
   \<and> (authenticated sess \<and> get_book_by_id e sess bid st = (Inr None, st1) \<longrightarrow>
        download_book_by_id e sess bid st = (Inl (Exn ''AttributeError''), st1))
   \<and> (authenticated sess \<and> get_book_by_id e sess bid st = (Inl x, st1) \<longrightarrow>
        download_book_by_id e sess bid st = (Inl x, st1))
   \<and> url (get_book_request bid) = ''/media/scheda.aspx''
   \<and> params (get_book_request bid) = [(''id'', bid)]
   \<and> url resources_request = ''/user/risorse.aspx''
   \<and> url (redownload_request sess loan) = ''/help/dlrepeat.aspx''
   \<and> params (redownload_request sess loan) = [(''idp'', loan)]
   \<and> (loan_links sp bid = Some (a # links) \<and> attrs a ''href'' = Some h
        \<and> re_search_suffix ''idp='' (lstrip_dots h) = Some loan \<longrightarrow>
        find_loan_id sp bid = Inr loan)"
proof (intro conjI impI)
  assume "\<not> authenticated sess"
  then show "download_book_by_id e sess bid st = (Inr None, logging ERROR auth_message st)"
    by (rule download_unauthenticated)
  then show "trace (snd (download_book_by_id e sess bid st)) = trace st"
    by (simp add: trace_logging)
next
  assume h: "authenticated sess \<and> get_book_by_id e sess bid st = (Inr (Some book), st1)"
  then show "trace st1 = trace st @ [get_book_request bid]"
    using get_book_by_id_trace by blast
next
  assume h: "authenticated sess \<and> get_book_by_id e sess bid st = (Inr (Some book), st1)"
    and o: "status book = Some ''owned''"
  from h o show "download_book_by_id e sess bid st =
                (case redownload_owned_book e sess bid
                        (logging INFO ''You already own this book. Redownloading...'' st1) of
                   (Inl x, st2) \<Rightarrow> (Inl x, st2)
                 | (Inr response, st2) \<Rightarrow> finish_download e sess bid response st2)"
    using download_owned by blast
next
  assume h: "authenticated sess \<and> get_book_by_id e sess bid st = (Inr (Some book), st1)"
    and o: "status book = Some ''owned''"
  let ?st1 = "logging INFO ''You already own this book. Redownloading...'' st1"
  from h have g: "get_book_by_id e sess bid st = (Inr (Some book), st1)" ..
  have t1: "trace ?st1 = trace st @ [get_book_request bid]"
    using get_book_by_id_trace [OF g] by (simp add: trace_logging)
  from h o have d: "download_book_by_id e sess bid st =
      (case redownload_owned_book e sess bid ?st1 of
         (Inl x, st2) \<Rightarrow> (Inl x, st2)
       | (Inr response, st2) \<Rightarrow> finish_download e sess bid response st2)"
    using download_owned by blast
  obtain r2 st2 where r: "redownload_owned_book e sess bid ?st1 = (r2, st2)"
    by (cases "redownload_owned_book e sess bid ?st1")
  from redownload_owned_book_trace [OF r] obtain mid where
    t2: "trace st2 = trace ?st1 @ resources_request # mid"
    and mid: "download_request sess bid \<notin> set mid"
    using download_request_distinct by fastforce
  show "\<exists>rest. trace (snd (download_book_by_id e sess bid st))
                     = trace st @ get_book_request bid # resources_request # rest
                   \<and> download_request sess bid \<notin> set rest"
  proof (cases r2)
    case (Inl x)
    with d r have "snd (download_book_by_id e sess bid st) = st2" by simp
    with t1 t2 mid show ?thesis by simp
  next
    case (Inr response)
    obtain r3 st3 where f: "finish_download e sess bid response st2 = (r3, st3)"
      by (cases "finish_download e sess bid response st2")
    with d r Inr have s: "snd (download_book_by_id e sess bid st) = st3" by simp
    from finish_download_trace [OF f] obtain fin where
      t3: "trace st3 = trace st2 @ fin" and fin: "download_request sess bid \<notin> set fin"
      using download_request_distinct by fastforce
    from s t1 t2 t3 have "trace (snd (download_book_by_id e sess bid st))
        = trace st @ get_book_request bid # resources_request # (mid @ fin)"
      by simp
    moreover from mid fin have "download_request sess bid \<notin> set (mid @ fin)" by simp
    ultimately show ?thesis by blast
  qed
next
  assume h: "authenticated sess \<and> get_book_by_id e sess bid st = (Inr (Some book), st1)"
    and o: "status book = Some ''owned''"
  let ?st1 = "logging INFO ''You already own this book. Redownloading...'' st1"
  from h have g: "get_book_by_id e sess bid st = (Inr (Some book), st1)" ..
  have t1: "trace ?st1 = trace st @ [get_book_request bid]"
    using get_book_by_id_trace [OF g] by (simp add: trace_logging)
  from h o have d: "download_book_by_id e sess bid st =
      (case redownload_owned_book e sess bid ?st1 of
         (Inl x, st2) \<Rightarrow> (Inl x, st2)
       | (Inr response, st2) \<Rightarrow> finish_download e sess bid response st2)"
    using download_owned by blast
  show "\<forall>response stR loan_id.
          session_request e resources_request ?st1 = (Inr response, stR)
          \<and> find_loan_id (BeautifulSoup e (resp_text response)) bid = Inr loan_id
          \<longrightarrow> (\<exists>rest. trace (snd (download_book_by_id e sess bid st))
                 = trace st @ get_book_request bid # resources_request
                     # redownload_request sess loan_id # rest)"
  proof (intro allI impI)
    fix response stR loan_id
    assume l: "session_request e resources_request ?st1 = (Inr response, stR)
          \<and> find_loan_id (BeautifulSoup e (resp_text response)) bid = Inr loan_id"
    obtain r2 st2 where r: "redownload_owned_book e sess bid ?st1 = (r2, st2)"
      by (cases "redownload_owned_book e sess bid ?st1")
    from l r have t2: "trace st2 = trace ?st1 @ [resources_request, redownload_request sess loan_id]"
      using redownload_owned_book_loan by blast
    show "\<exists>rest. trace (snd (download_book_by_id e sess bid st))
                 = trace st @ get_book_request bid # resources_request
                     # redownload_request sess loan_id # rest"
    proof (cases r2)
      case (Inl x)
      with d r have "snd (download_book_by_id e sess bid st) = st2" by simp
      with t1 t2 show ?thesis by simp
    next
      case (Inr resp)
      obtain r3 st3 where f: "finish_download e sess bid resp st2 = (r3, st3)"
        by (cases "finish_download e sess bid resp st2")
      with d r Inr have s: "snd (download_book_by_id e sess bid st) = st3" by simp
      from finish_download_trace [OF f] obtain fin where "trace st3 = trace st2 @ fin"
        by fastforce
      with s t1 t2 show ?thesis by simp
    qed
  qed
next
  assume h: "authenticated sess \<and> get_book_by_id e sess bid st = (Inr (Some book), st1)"
    and a: "status book = Some ''available''"
  from h a show "download_book_by_id e sess bid st =
                (case session_request e (download_request sess bid) st1 of
                   (Inl x, st2) \<Rightarrow> (Inl x, st2)
                 | (Inr response, st2) \<Rightarrow> finish_download e sess bid response st2)"
    using download_available by blast
next
  assume h: "authenticated sess \<and> get_book_by_id e sess bid st = (Inr (Some book), st1)"
    and a: "status book = Some ''available''"
  from h have t1: "trace st1 = trace st @ [get_book_request bid]"
    using get_book_by_id_trace by blast
  from h a have d: "download_book_by_id e sess bid st =
      (case session_request e (download_request sess bid) st1 of
         (Inl x, st2) \<Rightarrow> (Inl x, st2)
       | (Inr response, st2) \<Rightarrow> finish_download e sess bid response st2)"
    using download_available by blast
  obtain r2 st2 where r: "session_request e (download_request sess bid) st1 = (r2, st2)"
    by (cases "session_request e (download_request sess bid) st1")
  then have t2: "trace st2 = trace st1 @ [download_request sess bid]"
    by (auto simp: session_request_def)
  show "\<exists>rest. trace (snd (download_book_by_id e sess bid st))
                     = trace st @ get_book_request bid # download_request sess bid # rest"
  proof (cases r2)
    case (Inl x)
    with d r have "snd (download_book_by_id e sess bid st) = st2" by simp
    with t1 t2 show ?thesis by simp
  next
    case (Inr response)
    obtain r3 st3 where f: "finish_download e sess bid response st2 = (r3, st3)"
      by (cases "finish_download e sess bid response st2")
    with d r Inr have s: "snd (download_book_by_id e sess bid st) = st3" by simp
    from finish_download_trace [OF f] obtain fin where "trace st3 = trace st2 @ fin"
      by fastforce
    with s t1 t2 show ?thesis by simp
  qed
next
  show "url (download_request sess bid) = ''/media/downloadebadok.aspx''"
    by (simp add: download_request_def ENDPOINTS_def)
  show "params (download_request sess bid) = [(''unid'', bid), (''form'', ''epub'')]"
    by (simp add: download_request_def)
next
  assume h: "authenticated sess \<and> get_book_by_id e sess bid st = (Inr (Some book), st1)"
    and n: "status book \<noteq> Some ''owned'' \<and> status book \<noteq> Some ''available''"
  from h n show d: "download_book_by_id e sess bid st =
                (Inr None,
                 logging ERROR
                   (''Book is not available for download. Status: '' @ str_opt (status book)) st1)"
    using download_other by blast
  from h have "trace st1 = trace st @ [get_book_request bid]"
    using get_book_by_id_trace by blast
  with d show "trace (snd (download_book_by_id e sess bid st)) = trace st @ [get_book_request bid]"
    by (simp add: trace_logging)
next
  assume "authenticated sess \<and> get_book_by_id e sess bid st = (Inr None, st1)"
  then show "download_book_by_id e sess bid st = (Inl (Exn ''AttributeError''), st1)"
    by (simp add: download_book_by_id_def)
next
  assume "authenticated sess \<and> get_book_by_id e sess bid st = (Inl x, st1)"
  then show "download_book_by_id e sess bid st = (Inl x, st1)"
    by (simp add: download_book_by_id_def)
next
  show "url (get_book_request bid) = ''/media/scheda.aspx''"
    by (simp add: get_book_request_def ENDPOINTS_def)
  show "params (get_book_request bid) = [(''id'', bid)]"
    by (simp add: get_book_request_def)
  show "url resources_request = ''/user/risorse.aspx''"
    by (simp add: resources_request_def ENDPOINTS_def)
  show "url (redownload_request sess loan) = ''/help/dlrepeat.aspx''"
    by (simp add: redownload_request_def ENDPOINTS_def)
  show "params (redownload_request sess loan) = [(''idp'', loan)]"
    by (simp add: redownload_request_def)
next
  assume "loan_links sp bid = Some (a # links) \<and> attrs a ''href'' = Some h
        \<and> re_search_suffix ''idp='' (lstrip_dots h) = Some loan"
  then show "find_loan_id sp bid = Inr loan"
    by (simp add: find_loan_id_def)
qed

theorem download_book_by_id_routing_witness:
  "authenticated example_session
   \<and> (\<exists>book st1.
        get_book_by_id (example_env ''Ripeti download''
            (Some [attr_el ''href'' ''../help/helpdeskdl.aspx?idp=777'']) None)
          example_session ''150123'' empty_state = (Inr (Some book), st1)
        \<and> status book = Some ''owned''
        \<and> (\<exists>rest. trace (snd (download_book_by_id (example_env ''Ripeti download''
                  (Some [attr_el ''href'' ''../help/helpdeskdl.aspx?idp=777'']) None)
                example_session ''150123'' empty_state))
              = trace empty_state @ get_book_request ''150123'' # resources_request # rest
            \<and> download_request example_session ''150123'' \<notin> set rest)
        \<and> (\<exists>response stR.
              session_request (example_env ''Ripeti download''
                  (Some [attr_el ''href'' ''../help/helpdeskdl.aspx?idp=777'']) None)
                resources_request
                (logging INFO ''You already own this book. Redownloading...'' st1)
              = (Inr response, stR)
            \<and> find_loan_id (BeautifulSoup (example_env ''Ripeti download''
                  (Some [attr_el ''href'' ''../help/helpdeskdl.aspx?idp=777'']) None)
                (resp_text response)) ''150123'' = Inr ''777''
            \<and> (\<exists>rest. trace (snd (download_book_by_id (example_env ''Ripeti download''
                      (Some [attr_el ''href'' ''../help/helpdeskdl.aspx?idp=777'']) None)
                    example_session ''150123'' empty_state))
                  = trace empty_state @ get_book_request ''150123'' # resources_request
                      # redownload_request example_session ''777'' # rest)))
   \<and> url (redownload_request example_session ''777'') = ''/help/dlrepeat.aspx''
   \<and> params (redownload_request example_session ''777'') = [(''idp'', ''777'')]
   \<and> (\<exists>st1.
        get_book_by_id example_env_alert example_session ''150123'' empty_state = (Inr None, st1)
        \<and> download_book_by_id example_env_alert example_session ''150123'' empty_state
            = (Inl (Exn ''AttributeError''), st1))
   \<and> (\<exists>book st1.
        get_book_by_id (example_env ''Scarica'' None None) example_session ''150123'' empty_state
          = (Inr (Some book), st1)
        \<and> status book = Some ''available''
        \<and> (\<exists>rest. trace (snd (download_book_by_id (example_env ''Scarica'' None None)
                example_session ''150123'' empty_state))
              = trace empty_state @ get_book_request ''150123''
                  # download_request example_session ''150123'' # rest))
   \<and> (\<exists>book st1.
        get_book_by_id (example_env ''Non disponibile'' None None) example_session ''150123''
            empty_state = (Inr (Some book), st1)
        \<and> status book = Some ''unavailable''
        \<and> download_book_by_id (example_env ''Non disponibile'' None None) example_session
              ''150123'' empty_state
            = (Inr None,
               logging ERROR (''Book is not available for download. Status: '' @ ''unavailable'') st1)
        \<and> trace (snd (download_book_by_id (example_env ''Non disponibile'' None None)
              example_session ''150123'' empty_state))
            = trace empty_state @ [get_book_request ''150123''])
   \<and> \<not> authenticated (example_session\<lparr>cookies := Map.empty\<rparr>)
   \<and> download_book_by_id (example_env ''Scarica'' None None)
          (example_session\<lparr>cookies := Map.empty\<rparr>) ''150123'' empty_state
        = (Inr None, logging ERROR auth_message empty_state)"
proof -
  let ?eo = "example_env ''Ripeti download''
      (Some [attr_el ''href'' ''../help/helpdeskdl.aspx?idp=777'']) None"
  let ?ea = "example_env ''Scarica'' None None"
  let ?eu = "example_env ''Non disponibile'' None None"
  let ?b = "''150123''"
  have a: "authenticated example_session"
    by code_simp
  have na: "\<not> authenticated (example_session\<lparr>cookies := Map.empty\<rparr>)"
    by code_simp
  have "(case fst (get_book_by_id ?eo example_session ?b empty_state) of
           Inr (Some b) \<Rightarrow> status b = Some ''owned'' | _ \<Rightarrow> False)"
    by code_simp
  then obtain bo so where
    go: "get_book_by_id ?eo example_session ?b empty_state = (Inr (Some bo), so)"
    and o: "status bo = Some ''owned''"
    by (rule get_book_by_id_example)
  from download_book_by_id_routing [of example_session ?eo ?b empty_state bo so] a go o
  have co: "\<exists>rest. trace (snd (download_book_by_id ?eo example_session ?b empty_state))
              = trace empty_state @ get_book_request ?b # resources_request # rest
            \<and> download_request example_session ?b \<notin> set rest"
    by blast
  let ?msg = "''You already own this book. Redownloading...''"
  let ?ro = "example_response ''page''"
  let ?h = "''../help/helpdeskdl.aspx?idp=777''"
  obtain so2 where
    ro: "session_request ?eo resources_request (logging INFO ?msg so) = (Inr ?ro, so2)"
    by (simp add: session_request_def example_env_def resources_request_def ENDPOINTS_def)
  have l1: "loan_links (BeautifulSoup ?eo (resp_text ?ro)) ?b = Some (attr_el ''href'' ?h # [])"
    by (simp add: example_env_def example_soup_def)
  have l2: "attrs (attr_el ''href'' ?h) ''href'' = Some ?h"
    by (simp add: attr_el_def)
  have l3: "re_search_suffix ''idp='' (lstrip_dots ?h) = Some ''777''"
    by code_simp
  from download_book_by_id_routing [where bid = ?b and sp = "BeautifulSoup ?eo (resp_text ?ro)"
      and a = "attr_el ''href'' ?h" and links = "[]" and h = ?h and loan = "''777''"] l1 l2 l3
  have fl: "find_loan_id (BeautifulSoup ?eo (resp_text ?ro)) ?b = Inr ''777''"
    by blast
  from download_book_by_id_routing [of example_session ?eo ?b empty_state bo so] a go o
  have "\<forall>response stR loan_id.
          session_request ?eo resources_request (logging INFO ?msg so) = (Inr response, stR)
          \<and> find_loan_id (BeautifulSoup ?eo (resp_text response)) ?b = Inr loan_id
          \<longrightarrow> (\<exists>rest. trace (snd (download_book_by_id ?eo example_session ?b empty_state))
                 = trace empty_state @ get_book_request ?b # resources_request
                     # redownload_request example_session loan_id # rest)"
    by blast
  with ro fl have cl: "\<exists>rest. trace (snd (download_book_by_id ?eo example_session ?b empty_state))
                 = trace empty_state @ get_book_request ?b # resources_request
                     # redownload_request example_session ''777'' # rest"
    by blast
  from download_book_by_id_routing [where sess = example_session and loan = "''777''"]
  have ru: "url (redownload_request example_session ''777'') = ''/help/dlrepeat.aspx''"
    and rp: "params (redownload_request example_session ''777'') = [(''idp'', ''777'')]"
    by blast+
  have "fst (get_book_by_id example_env_alert example_session ?b empty_state) = Inr None"
    by code_simp
  then obtain sn where
    gn: "get_book_by_id example_env_alert example_session ?b empty_state = (Inr None, sn)"
    by (cases "get_book_by_id example_env_alert example_session ?b empty_state") auto
  from download_book_by_id_routing [where sess = example_session and e = example_env_alert
      and bid = ?b and st = empty_state and ?st1.0 = sn] a gn
  have cr: "download_book_by_id example_env_alert example_session ?b empty_state
            = (Inl (Exn ''AttributeError''), sn)"
    by blast
  have "(case fst (get_book_by_id ?ea example_session ?b empty_state) of
           Inr (Some b) \<Rightarrow> status b = Some ''available'' | _ \<Rightarrow> False)"
    by code_simp
  then obtain ba sa where
    ga: "get_book_by_id ?ea example_session ?b empty_state = (Inr (Some ba), sa)"
    and av: "status ba = Some ''available''"
    by (rule get_book_by_id_example)
  from download_book_by_id_routing [of example_session ?ea ?b empty_state ba sa] a ga av
  have ca: "\<exists>rest. trace (snd (download_book_by_id ?ea example_session ?b empty_state))
              = trace empty_state @ get_book_request ?b # download_request example_session ?b # rest"
    by blast
  have "(case fst (get_book_by_id ?eu example_session ?b empty_state) of
           Inr (Some b) \<Rightarrow> status b = Some ''unavailable'' | _ \<Rightarrow> False)"
    by code_simp
  then obtain bu su where
    gu: "get_book_by_id ?eu example_session ?b empty_state = (Inr (Some bu), su)"
    and u: "status bu = Some ''unavailable''"
    by (rule get_book_by_id_example)
  from u have u': "status bu \<noteq> Some ''owned'' \<and> status bu \<noteq> Some ''available''"
    by simp
  have su_eq: "str_opt (status bu) = ''unavailable''"
    using u by (simp add: str_opt_def)
  from download_book_by_id_routing [of example_session ?eu ?b empty_state bu su] a gu u'
  have cu1: "download_book_by_id ?eu example_session ?b empty_state
            = (Inr None,
               logging ERROR (''Book is not available for download. Status: '' @ str_opt (status bu)) su)"
    and cu2: "trace (snd (download_book_by_id ?eu example_session ?b empty_state))
            = trace empty_state @ [get_book_request ?b]"
    by blast+
  from cu1 have cu1': "download_book_by_id ?eu example_session ?b empty_state
            = (Inr None,
               logging ERROR (''Book is not available for download. Status: '' @ ''unavailable'') su)"
    unfolding su_eq .
  from cu1' cu2 have cu: "download_book_by_id ?eu example_session ?b empty_state
            = (Inr None,
               logging ERROR (''Book is not available for download. Status: '' @ ''unavailable'') su)
        \<and> trace (snd (download_book_by_id ?eu example_session ?b empty_state))
            = trace empty_state @ [get_book_request ?b]"
    by (rule conjI)
  from download_book_by_id_routing [of "example_session\<lparr>cookies := Map.empty\<rparr>" ?ea ?b empty_state] na
  have cn: "download_book_by_id ?ea (example_session\<lparr>cookies := Map.empty\<rparr>) ?b empty_state
        = (Inr None, logging ERROR auth_message empty_state)"
    by blast
  from go o co ro fl cl have owned: "\<exists>book st1.
        get_book_by_id ?eo example_session ?b empty_state = (Inr (Some book), st1)
        \<and> status book = Some ''owned''
        \<and> (\<exists>rest. trace (snd (download_book_by_id ?eo example_session ?b empty_state))
              = trace empty_state @ get_book_request ?b # resources_request # rest
            \<and> download_request example_session ?b \<notin> set rest)
        \<and> (\<exists>response stR.
              session_request ?eo resources_request (logging INFO ?msg st1) = (Inr response, stR)
            \<and> find_loan_id (BeautifulSoup ?eo (resp_text response)) ?b = Inr ''777''
            \<and> (\<exists>rest. trace (snd (download_book_by_id ?eo example_session ?b empty_state))
                  = trace empty_state @ get_book_request ?b # resources_request
                      # redownload_request example_session ''777'' # rest))"
    by blast
  from gn cr have norec: "\<exists>st1.
        get_book_by_id example_env_alert example_session ?b empty_state = (Inr None, st1)
        \<and> download_book_by_id example_env_alert example_session ?b empty_state
            = (Inl (Exn ''AttributeError''), st1)"
    by blast
  from ga av ca have avail: "\<exists>book st1.
        get_book_by_id ?ea example_session ?b empty_state = (Inr (Some book), st1)
        \<and> status book = Some ''available''
        \<and> (\<exists>rest. trace (snd (download_book_by_id ?ea example_session ?b empty_state))
              = trace empty_state @ get_book_request ?b
                  # download_request example_session ?b # rest)"
    by blast
  from gu u cu have other: "\<exists>book st1.
        get_book_by_id ?eu example_session ?b empty_state = (Inr (Some book), st1)
        \<and> status book = Some ''unavailable''
        \<and> download_book_by_id ?eu example_session ?b empty_state
            = (Inr None,
               logging ERROR (''Book is not available for download. Status: '' @ ''unavailable'') st1)
        \<and> trace (snd (download_book_by_id ?eu example_session ?b empty_state))
            = trace empty_state @ [get_book_request ?b]"
    by blast
  from a owned ru rp norec avail other na cn show ?thesis
    by (intro conjI)
qed

text \<open>
  C4 asks this routing for every book ID. For a book the lookup does not find
  (\<open>get_book_by_id\<close> returns \<open>None\<close>, here because the portal redirected the detail
  request to its \<open>alert.aspx\<close> notice) there is no status to route on, and the code
  does not return a failure either: \<open>book.status\<close> on \<open>None\<close> raises
  \<open>AttributeError\<close>, after the book fetch and the warning of \<open>get_book_by_id\<close>.
  Whenever the lookup returns a record the routing is as C4 says
  (\<open>download_book_by_id_routing\<close>).
\<close>

theorem download_book_by_id_no_record_raises:
  "authenticated example_session
   \<and> fst (get_book_by_id example_env_alert example_session ''150123'' empty_state) = Inr None
   \<and> outcome (download_book_by_id example_env_alert example_session ''150123'' empty_state)
     = (Inl (Exn ''AttributeError''),
        [''/media/scheda.aspx''],
        [(DEBUG, ''Fetching book 150123''),
         (WARNING, ''Failed to fetch book 150123. Might not be available to your library.'')])"
  by code_simp

text \<open>
  C5, as the code has it. Three business failures of \<open>download_book_by_id\<close> are
  reported by a logged error and the return value \<open>None\<close>: no authenticated session; a
  book whose status is neither \<open>owned\<close> nor \<open>available\<close>; a final response, after
  the redirect if there was one, that does not start with the fulfillment token, on the
  direct and on the redownload path alike. The fourth, an owned book whose loan entry is
  not found, is logged as an error and then raised: the caller gets the exception of the
  failed lookup.
\<close>

theorem download_book_by_id_failures:
  "(\<not> authenticated sess \<longrightarrow>
      download_book_by_id e sess bid st = (Inr None, logging ERROR auth_message st))
   \<and> (authenticated sess \<and> get_book_by_id e sess bid st = (Inr (Some book), st1)
        \<and> status book \<noteq> Some ''owned'' \<and> status book \<noteq> Some ''available'' \<longrightarrow>
      download_book_by_id e sess bid st =
        (Inr None,
         logging ERROR
           (''Book is not available for download. Status: '' @ str_opt (status book)) st1))
   \<and> (authenticated sess \<and> get_book_by_id e sess bid st = (Inr (Some book), st1)
        \<and> status book = Some ''available''
        \<and> session_request e (download_request sess bid) st1 = (Inr response, st2)
        \<and> follow_redirect e sess response st2 = (Inr response', st3)
        \<and> \<not> prefix ''<fulfillmentToken'' (resp_text response') \<longrightarrow>
      download_book_by_id e sess bid st =
        (Inr None,
         logging DEBUG (resp_text response')
           (logging ERROR (''Failed to download book '' @ bid) st3)))
   \<and> (authenticated sess \<and> get_book_by_id e sess bid st = (Inr (Some book), st1)
        \<and> status book = Some ''owned''
        \<and> redownload_owned_book e sess bid
             (logging INFO ''You already own this book. Redownloading...'' st1)
           = (Inr response, st2)
        \<and> follow_redirect e sess response st2 = (Inr response', st3)
        \<and> \<not> prefix ''<fulfillmentToken'' (resp_text response') \<longrightarrow>
      download_book_by_id e sess bid st =
        (Inr None,
         logging DEBUG (resp_text response')
           (logging ERROR (''Failed to download book '' @ bid) st3)))
   \<and> (authenticated sess \<and> get_book_by_id e sess bid st = (Inr (Some book), st1)
        \<and> status book = Some ''owned''
        \<and> session_request e resources_request
             (logging INFO ''You already own this book. Redownloading...'' st1)
           = (Inr response, st2)
        \<and> find_loan_id (BeautifulSoup e (resp_text response)) bid = Inl x \<longrightarrow>
      download_book_by_id e sess bid st =
        (Inl x, logging ERROR (''Failed to find owned book '' @ bid @ '' in your profile'') st2))"
proof (intro conjI impI)
  assume "\<not> authenticated sess"
  then show "download_book_by_id e sess bid st = (Inr None, logging ERROR auth_message st)"
    by (rule download_unauthenticated)
next
  assume "authenticated sess \<and> get_book_by_id e sess bid st = (Inr (Some book), st1)
        \<and> status book \<noteq> Some ''owned'' \<and> status book \<noteq> Some ''available''"
  then show "download_book_by_id e sess bid st =
        (Inr None,
         logging ERROR
           (''Book is not available for download. Status: '' @ str_opt (status book)) st1)"
    using download_other by blast
next
  assume h: "authenticated sess \<and> get_book_by_id e sess bid st = (Inr (Some book), st1)
        \<and> status book = Some ''available''
        \<and> session_request e (download_request sess bid) st1 = (Inr response, st2)
        \<and> follow_redirect e sess response st2 = (Inr response', st3)
        \<and> \<not> prefix ''<fulfillmentToken'' (resp_text response')"
  then have "download_book_by_id e sess bid st = finish_download e sess bid response st2"
    using download_available [of sess e bid st book st1] by simp
  with h show "download_book_by_id e sess bid st =
        (Inr None,
         logging DEBUG (resp_text response')
           (logging ERROR (''Failed to download book '' @ bid) st3))"
    using finish_download_no_marker [of e sess response st2 response' st3 bid] by simp
next
  assume h: "authenticated sess \<and> get_book_by_id e sess bid st = (Inr (Some book), st1)
        \<and> status book = Some ''owned''
        \<and> redownload_owned_book e sess bid
             (logging INFO ''You already own this book. Redownloading...'' st1)
           = (Inr response, st2)
        \<and> follow_redirect e sess response st2 = (Inr response', st3)
        \<and> \<not> prefix ''<fulfillmentToken'' (resp_text response')"
  then have "download_book_by_id e sess bid st = finish_download e sess bid response st2"
    using download_owned [of sess e bid st book st1] by simp
  with h show "download_book_by_id e sess bid st =
        (Inr None,
         logging DEBUG (resp_text response')
           (logging ERROR (''Failed to download book '' @ bid) st3))"
    using finish_download_no_marker [of e sess response st2 response' st3 bid] by simp
next
  assume h: "authenticated sess \<and> get_book_by_id e sess bid st = (Inr (Some book), st1)
        \<and> status book = Some ''owned''
        \<and> session_request e resources_request
             (logging INFO ''You already own this book. Redownloading...'' st1)
           = (Inr response, st2)
        \<and> find_loan_id (BeautifulSoup e (resp_text response)) bid = Inl x"
  then have "redownload_owned_book e sess bid
             (logging INFO ''You already own this book. Redownloading...'' st1)
     = (Inl x, logging ERROR (''Failed to find owned book '' @ bid @ '' in your profile'') st2)"
    using redownload_owned_book_not_found by blast
  with h show "download_book_by_id e sess bid st =
        (Inl x, logging ERROR (''Failed to find owned book '' @ bid @ '' in your profile'') st2)"
    using download_owned [of sess e bid st book st1] by simp
qed

theorem download_book_by_id_failures_witness:
  "\<not> authenticated (example_session\<lparr>cookies := Map.empty\<rparr>)
   \<and> download_book_by_id (example_env ''Scarica'' None None)
          (example_session\<lparr>cookies := Map.empty\<rparr>) ''150123'' empty_state
        = (Inr None, logging ERROR auth_message empty_state)
   \<and> authenticated example_session
   \<and> (\<exists>book st1.
        get_book_by_id (example_env ''Non disponibile'' None None) example_session ''150123''
            empty_state = (Inr (Some book), st1)
        \<and> status book \<noteq> Some ''owned'' \<and> status book \<noteq> Some ''available''
        \<and> download_book_by_id (example_env ''Non disponibile'' None None) example_session
              ''150123'' empty_state
            = (Inr None,
               logging ERROR
                 (''Book is not available for download. Status: '' @ str_opt (status book)) st1))
   \<and> (\<exists>book st1 response st2.
        get_book_by_id (example_env_no_token ''Scarica'' None) example_session ''150123''
            empty_state = (Inr (Some book), st1)
        \<and> status book = Some ''available''
        \<and> session_request (example_env_no_token ''Scarica'' None)
              (download_request example_session ''150123'') st1 = (Inr response, st2)
        \<and> follow_redirect (example_env_no_token ''Scarica'' None) example_session response st2
            = (Inr response, st2)
        \<and> \<not> prefix ''<fulfillmentToken'' (resp_text response)
        \<and> download_book_by_id (example_env_no_token ''Scarica'' None) example_session
              ''150123'' empty_state
            = (Inr None,
               logging DEBUG (resp_text response)
                 (logging ERROR (''Failed to download book '' @ ''150123'') st2)))
   \<and> (\<exists>book st1 response st2.
        get_book_by_id (example_env ''Ripeti download'' None None) example_session ''150123''
            empty_state = (Inr (Some book), st1)
        \<and> status book = Some ''owned''
        \<and> session_request (example_env ''Ripeti download'' None None) resources_request
              (logging INFO ''You already own this book. Redownloading...'' st1)
            = (Inr response, st2)
        \<and> find_loan_id (BeautifulSoup (example_env ''Ripeti download'' None None)
              (resp_text response)) ''150123'' = Inl (Exn ''AttributeError'')
        \<and> download_book_by_id (example_env ''Ripeti download'' None None) example_session
              ''150123'' empty_state
            = (Inl (Exn ''AttributeError''),
               logging ERROR (''Failed to find owned book '' @ ''150123'' @ '' in your profile'') st2))"
proof -
  let ?ea = "example_env ''Scarica'' None None"
  let ?eu = "example_env ''Non disponibile'' None None"
  let ?en = "example_env_no_token ''Scarica'' None"
  let ?eo = "example_env ''Ripeti download'' None None"
  let ?b = "''150123''"
  let ?msg = "''You already own this book. Redownloading...''"
  have a: "authenticated example_session"
    by code_simp
  have na: "\<not> authenticated (example_session\<lparr>cookies := Map.empty\<rparr>)"
    by code_simp
  from download_book_by_id_failures [of "example_session\<lparr>cookies := Map.empty\<rparr>" ?ea ?b empty_state] na
  have c1: "download_book_by_id ?ea (example_session\<lparr>cookies := Map.empty\<rparr>) ?b empty_state
        = (Inr None, logging ERROR auth_message empty_state)"
    by blast
  have "(case fst (get_book_by_id ?eu example_session ?b empty_state) of
           Inr (Some b) \<Rightarrow> status b = Some ''unavailable'' | _ \<Rightarrow> False)"
    by code_simp
  then obtain bu su where
    gu: "get_book_by_id ?eu example_session ?b empty_state = (Inr (Some bu), su)"
    and u: "status bu = Some ''unavailable''"
    by (rule get_book_by_id_example)
  from u have u': "status bu \<noteq> Some ''owned''" "status bu \<noteq> Some ''available''"
    by simp_all
  from download_book_by_id_failures [of example_session ?eu ?b empty_state bu su] a gu u'
  have c2: "download_book_by_id ?eu example_session ?b empty_state
            = (Inr None,
               logging ERROR
                 (''Book is not available for download. Status: '' @ str_opt (status bu)) su)"
    by blast
  have "(case fst (get_book_by_id ?en example_session ?b empty_state) of
           Inr (Some b) \<Rightarrow> status b = Some ''available'' | _ \<Rightarrow> False)"
    by code_simp
  then obtain bn sn where
    gn: "get_book_by_id ?en example_session ?b empty_state = (Inr (Some bn), sn)"
    and av: "status bn = Some ''available''"
    by (rule get_book_by_id_example)
  let ?rn = "example_response ''<html>error</html>''"
  obtain sn2 where
    rn: "session_request ?en (download_request example_session ?b) sn = (Inr ?rn, sn2)"
    by (simp add: session_request_def example_env_no_token_def)
  have fn: "follow_redirect ?en example_session ?rn sn2 = (Inr ?rn, sn2)"
    by (simp add: follow_redirect_def example_response_def)
  have mn: "\<not> prefix ''<fulfillmentToken'' (resp_text ?rn)"
    by (simp add: example_response_def)
  from download_book_by_id_failures [of example_session ?en ?b empty_state bn sn ?rn sn2 ?rn sn2]
    a gn av rn fn mn
  have c3: "download_book_by_id ?en example_session ?b empty_state
            = (Inr None,
               logging DEBUG (resp_text ?rn)
                 (logging ERROR (''Failed to download book '' @ ?b) sn2))"
    by blast
  have "(case fst (get_book_by_id ?eo example_session ?b empty_state) of
           Inr (Some b) \<Rightarrow> status b = Some ''owned'' | _ \<Rightarrow> False)"
    by code_simp
  then obtain bo so where
    go: "get_book_by_id ?eo example_session ?b empty_state = (Inr (Some bo), so)"
    and o: "status bo = Some ''owned''"
    by (rule get_book_by_id_example)
  let ?ro = "example_response ''page''"
  obtain so2 where
    ro: "session_request ?eo resources_request (logging INFO ?msg so) = (Inr ?ro, so2)"
    by (simp add: session_request_def example_env_def resources_request_def ENDPOINTS_def)
  have fl: "find_loan_id (BeautifulSoup ?eo (resp_text ?ro)) ?b = Inl (Exn ''AttributeError'')"
    by code_simp
  from download_book_by_id_failures [of example_session ?eo ?b empty_state bo so ?ro so2 _ _
      "Exn ''AttributeError''"]
    a go o ro fl
  have c4: "download_book_by_id ?eo example_session ?b empty_state
            = (Inl (Exn ''AttributeError''),
               logging ERROR (''Failed to find owned book '' @ ?b @ '' in your profile'') so2)"
    by blast
  from na c1 a gu u' c2 gn av rn fn mn c3 go o ro fl c4 show ?thesis by blast
qed

text \<open>
  C5 as stated fails for the owned book whose loan entry is not found: the
  \<open>except\<close> clause of \<open>_redownload_owned_book\<close> logs the error and raises the
  exception again, so the caller gets \<open>AttributeError\<close>, not \<open>None\<close>. (The second
  evaluation is the book lookup that yields no record, here by the \<open>alert.aspx\<close>
  redirect: \<open>book.status\<close> on \<open>None\<close> raises \<open>AttributeError\<close> too.)
\<close>

theorem download_book_by_id_failures_counterexample:
  "outcome (download_book_by_id (example_env ''Ripeti download'' None None) example_session
        ''150123'' empty_state)
     = (Inl (Exn ''AttributeError''),
        [''/media/scheda.aspx'', ''/user/risorse.aspx''],
        [(DEBUG, ''Fetching book 150123''),
         (INFO, ''You already own this book. Redownloading...''),
         (ERROR, ''Failed to find owned book 150123 in your profile'')])
   \<and> outcome (download_book_by_id example_env_alert example_session ''150123'' empty_state)
     = (Inl (Exn ''AttributeError''),
        [''/media/scheda.aspx''],
        [(DEBUG, ''Fetching book 150123''),
         (WARNING, ''Failed to fetch book 150123. Might not be available to your library.'')])"
  by code_simp

end
